theory Spec2Isabelle
  imports Complex_Main
begin

section \<open>JavaScript values used by the tile styler\<close>

subsection \<open>Numbers\<close>

text \<open>
  A JavaScript number is NaN, an infinity or a finite double. A finite value is kept as
  the rational it is, and every operation rounds its exact result to the nearest double,
  as the language does: ties go to the even significand, a result beyond the largest
  double is an infinity, and a result below the smallest is zero. Negative zero is the
  same value as zero here, so a division by it has the sign of a division by zero.
\<close>

datatype jsnum = NaN | PInf | NInf | Fin rat

text \<open>
  The exponent \<open>e\<close> of a positive number \<open>q\<close> in base \<open>b\<close>:
  \<open>b ^ e \<le> q < b ^ (e + 1)\<close>.
\<close>

function exponentIn :: "rat \<Rightarrow> rat \<Rightarrow> int" where
  "exponentIn b q =
     (if b < 2 \<or> q \<le> 0 then 0
      else if q < 1 then exponentIn b (b * q) - 1
      else if b \<le> q then exponentIn b (q / b) + 1
      else 0)"
  by pat_completeness auto

termination
proof (relation "measure (\<lambda>(b, q). if q < 1 then nat \<lceil>1 / q\<rceil> else nat \<lfloor>q / b\<rfloor>)")
  show "wf (measure (\<lambda>(b::rat, q::rat). if q < 1 then nat \<lceil>1 / q\<rceil> else nat \<lfloor>q / b\<rfloor>))"
    by simp
next
  fix b q :: rat
  assume a: "\<not> (b < 2 \<or> q \<le> 0)" "q < 1"
  then have q0: "0 < q" and b2: "2 \<le> b" by simp_all
  show "((b, b * q), (b, q))
          \<in> measure (\<lambda>(b, q). if q < 1 then nat \<lceil>1 / q\<rceil> else nat \<lfloor>q / b\<rfloor>)"
  proof (cases "b * q < 1")
    case True
    define x where "x = 1 / q"
    from True q0 have "b < x" by (simp add: x_def pos_less_divide_eq)
    with b2 have x2: "2 < x" by linarith
    then have c2: "2 < \<lceil>x\<rceil>" by (simp add: less_ceiling_iff)
    then have big: "(2 :: rat) < of_int \<lceil>x\<rceil>" by simp
    have up: "x \<le> of_int \<lceil>x\<rceil>" by (rule le_of_int_ceiling)
    from x2 b2 have "x / b \<le> x / 2" by (intro frac_le) simp_all
    with up big have "x / b \<le> of_int \<lceil>x\<rceil> - 1" by linarith
    then have "x / b \<le> of_int (\<lceil>x\<rceil> - 1)" by simp
    then have "\<lceil>x / b\<rceil> \<le> \<lceil>x\<rceil> - 1" by (simp only: ceiling_le_iff)
    with c2 have less: "nat \<lceil>x / b\<rceil> < nat \<lceil>x\<rceil>" by linarith
    have eq: "1 / (b * q) = x / b" by (simp add: x_def)
    from less have "nat \<lceil>1 / (b * q)\<rceil> < nat \<lceil>1 / q\<rceil>"
      by (simp only: eq x_def [symmetric])
    then show ?thesis unfolding in_measure using True a(2) by (simp only: case_prod_conv if_True)
  next
    case False
    from a q0 have "1 < 1 / q" by (simp add: pos_less_divide_eq)
    then have "1 < \<lceil>1 / q\<rceil>" by (simp add: less_ceiling_iff)
    moreover from b2 have "b * q / b = q" by simp
    then have "\<lfloor>b * q / b\<rfloor> = 0" using a q0 by (simp add: floor_eq_iff)
    ultimately have "nat \<lfloor>b * q / b\<rfloor> < nat \<lceil>1 / q\<rceil>" by linarith
    then show ?thesis unfolding in_measure using False a(2)
      by (simp only: case_prod_conv if_True if_False)
  qed
next
  fix b q :: rat
  assume a: "\<not> (b < 2 \<or> q \<le> 0)" "\<not> q < 1" "b \<le> q"
  then have b2: "2 \<le> b" by simp
  with a have y1: "1 \<le> q / b" by (simp add: pos_le_divide_eq)
  define y where "y = q / b"
  from y1 have y1': "1 \<le> y" by (simp add: y_def)
  then have one: "1 \<le> \<lfloor>y\<rfloor>" by (simp add: le_floor_iff)
  then have big: "(1 :: rat) \<le> of_int \<lfloor>y\<rfloor>" by simp
  have "y < of_int \<lfloor>y\<rfloor> + 1" by linarith
  moreover from y1' b2 have "y / b \<le> y / 2" by (intro frac_le) simp_all
  ultimately have "y / b < of_int \<lfloor>y\<rfloor>" using big by linarith
  then have "\<lfloor>y / b\<rfloor> < \<lfloor>y\<rfloor>" by (simp only: floor_less_iff)
  with one have "nat \<lfloor>q / b / b\<rfloor> < nat \<lfloor>q / b\<rfloor>" unfolding y_def by linarith
  moreover from y1 have "\<not> q / b < 1" by simp
  ultimately show "((b, q / b), (b, q))
          \<in> measure (\<lambda>(b, q). if q < 1 then nat \<lceil>1 / q\<rceil> else nat \<lfloor>q / b\<rfloor>)"
    unfolding in_measure using a(2) by (simp only: case_prod_conv if_False)
qed

declare exponentIn.simps [simp del]

text \<open>Rounding to the nearest integer, a tie to the even one.\<close>

definition roundHalfEven :: "rat \<Rightarrow> int" where
  "roundHalfEven x =
     (if x - of_int \<lfloor>x\<rfloor> < 1 / 2 then \<lfloor>x\<rfloor>
      else if 1 / 2 < x - of_int \<lfloor>x\<rfloor> then \<lfloor>x\<rfloor> + 1
      else if even \<lfloor>x\<rfloor> then \<lfloor>x\<rfloor> else \<lfloor>x\<rfloor> + 1)"

text \<open>
  The double nearest to a rational: a significand of 53 bits at the exponent of the
  number, which is at least -1022 (below that the doubles are evenly spaced), and an
  infinity from \<open>2 ^ 1024\<close> on.
\<close>

definition toDouble :: "rat \<Rightarrow> jsnum" where
  "toDouble q =
     (if q = 0 then Fin 0
      else
        (let e = max (exponentIn 2 \<bar>q\<bar>) (- 1022);
             v = of_int (roundHalfEven (\<bar>q\<bar> * 2 powi (52 - e))) * 2 powi (e - 52)
         in if 2 ^ 1024 \<le> v then (if 0 < q then PInf else NInf)
            else Fin (if 0 < q then v else - v)))"

fun jsneg :: "jsnum \<Rightarrow> jsnum" where
  "jsneg NaN = NaN"
| "jsneg PInf = NInf"
| "jsneg NInf = PInf"
| "jsneg (Fin x) = Fin (- x)"

text \<open>The operator \<^verbatim>\<open>-\<close> on two numbers.\<close>

fun jssub :: "jsnum \<Rightarrow> jsnum \<Rightarrow> jsnum" where
  "jssub (Fin x) (Fin y) = toDouble (x - y)"
| "jssub NaN _ = NaN"
| "jssub _ NaN = NaN"
| "jssub PInf PInf = NaN"
| "jssub NInf NInf = NaN"
| "jssub PInf _ = PInf"
| "jssub NInf _ = NInf"
| "jssub (Fin x) PInf = NInf"
| "jssub (Fin x) NInf = PInf"

text \<open>
  The operator \<^verbatim>\<open>/\<close>: a division by zero does not raise, it gives an infinity
  (NaN for 0 / 0).
\<close>

fun jsdiv :: "jsnum \<Rightarrow> jsnum \<Rightarrow> jsnum" where
  "jsdiv (Fin x) (Fin y) =
     (if y = 0 then (if x = 0 then NaN else if 0 < x then PInf else NInf)
      else toDouble (x / y))"
| "jsdiv NaN _ = NaN"
| "jsdiv _ NaN = NaN"
| "jsdiv (Fin x) PInf = Fin 0"
| "jsdiv (Fin x) NInf = Fin 0"
| "jsdiv PInf (Fin y) = (if y < 0 then NInf else PInf)"
| "jsdiv NInf (Fin y) = (if y < 0 then PInf else NInf)"
| "jsdiv PInf _ = NaN"
| "jsdiv NInf _ = NaN"

text \<open>A field that has not been assigned reads \<^verbatim>\<open>undefined\<close>, which is NaN in arithmetic.\<close>

definition toNumber :: "jsnum option \<Rightarrow> jsnum" where
  "toNumber v = (case v of None \<Rightarrow> NaN | Some n \<Rightarrow> n)"

subsection \<open>Numbers and undefined inside template literals\<close>

fun digits :: "nat \<Rightarrow> string" where
  "digits n = (if n < 10 then [''0123456789'' ! n]
               else digits (n div 10) @ [''0123456789'' ! (n mod 10)])"

declare digits.simps [simp del]

definition integerToString :: "int \<Rightarrow> string" where
  "integerToString i = (if i < 0 then ''-'' @ digits (nat (- i)) else digits (nat i))"

definition isWholeNumber :: "rat \<Rightarrow> bool" where
  "isWholeNumber q = (q = of_int \<lfloor>q\<rfloor> \<and> \<bar>q\<bar> \<le> 9007199254740992)"

text \<open>
  Number-to-string conversion, as a template literal applies it. NaN and the infinities
  have fixed names, and an integer up to \<open>2 ^ 53\<close> is written with all its decimal
  digits. For any other finite value the text is left to \<open>dec\<close>; \<open>jsDigits\<close> below is
  the text that the language prescribes.
\<close>

definition numberToString :: "(rat \<Rightarrow> string) \<Rightarrow> jsnum \<Rightarrow> string" where
  "numberToString dec n =
     (case n of
        NaN \<Rightarrow> ''NaN''
      | PInf \<Rightarrow> ''Infinity''
      | NInf \<Rightarrow> ''-Infinity''
      | Fin q \<Rightarrow> if isWholeNumber q then integerToString \<lfloor>q\<rfloor> else dec q)"

text \<open>The double quote character, which the error messages contain.\<close>

definition dquote :: string where
  "dquote = [CHR 0x22]"

definition stringOrUndefined :: "string option \<Rightarrow> string" where
  "stringOrUndefined v = (case v of None \<Rightarrow> ''undefined'' | Some s \<Rightarrow> s)"

subsection \<open>The digits of a double\<close>

definition scale10 :: "rat \<Rightarrow> int \<Rightarrow> rat" where
  "scale10 m e = (if e < 0 then m / 10 ^ nat (- e) else m * 10 ^ nat e)"

text \<open>
  The language writes a positive double \<open>x\<close> with the digits of the integer \<open>s\<close> of
  the fewest digits \<open>k\<close> for which \<open>s * 10 ^ (n - k)\<close> is read back as \<open>x\<close>, and among
  those the one nearest to \<open>x\<close>. \<open>roundTrips x s e\<close> says that \<open>s * 10 ^ e\<close> is read back
  as \<open>x\<close>.
\<close>

definition roundTrips :: "rat \<Rightarrow> int \<Rightarrow> int \<Rightarrow> bool" where
  "roundTrips x s e = (toDouble (scale10 (of_int s) e) = Fin x)"

text \<open>
  The digits of length \<open>k\<close> for \<open>x\<close> with \<open>10 ^ (n - 1) \<le> x < 10 ^ n\<close>, if there are
  any: only the two integers around \<open>x * 10 ^ (k - n)\<close> can be nearest. When the upper
  one is \<open>10 ^ k\<close> it is written as \<open>10 ^ (k - 1)\<close> one place higher.
\<close>

definition digitsOfLength :: "rat \<Rightarrow> int \<Rightarrow> nat \<Rightarrow> (int \<times> int) option" where
  "digitsOfLength x n k =
     (let t = scale10 x (int k - n);
          lo = \<lfloor>t\<rfloor>;
          hi = (if lo + 1 = 10 ^ k then 10 ^ (k - 1) else lo + 1);
          hn = (if lo + 1 = 10 ^ k then n + 1 else n);
          lower = (10 ^ (k - 1) \<le> lo \<and> roundTrips x lo (n - int k));
          upper = roundTrips x hi (hn - int k);
          nearer = (of_int (lo + 1) - t < t - of_int lo \<or>
                    (of_int (lo + 1) - t = t - of_int lo \<and> odd lo))
      in if upper \<and> (nearer \<or> \<not> lower) then Some (hi, hn)
         else if lower then Some (lo, n)
         else None)"

fun firstDigits :: "rat \<Rightarrow> int \<Rightarrow> nat list \<Rightarrow> (int \<times> int) option" where
  "firstDigits x n [] = None"
| "firstDigits x n (k # ks) =
     (case digitsOfLength x n k of
        None \<Rightarrow> firstDigits x n ks
      | Some r \<Rightarrow> Some r)"

text \<open>Seventeen digits tell any two doubles apart, so the search stops there.\<close>

definition shortestDigits :: "rat \<Rightarrow> (int \<times> int) option" where
  "shortestDigits x =
     firstDigits x (exponentIn 10 x + 1)
       [1, 2, 3, 4, 5, 6, 7, 8, 9, 10, 11, 12, 13, 14, 15, 16, 17]"

text \<open>
  The text for the digits \<open>s\<close> and the position \<open>n\<close> of the decimal point: plain digits
  with zeros or a point up to 21 places, up to six zeros after \<^verbatim>\<open>0.\<close>, and an exponent
  otherwise.
\<close>

definition formatDigits :: "int \<Rightarrow> int \<Rightarrow> string" where
  "formatDigits s n =
     (let d = digits (nat s); k = int (length d)
      in if k \<le> n \<and> n \<le> 21 then d @ replicate (nat (n - k)) CHR ''0''
         else if 0 < n \<and> n \<le> 21 then take (nat n) d @ ''.'' @ drop (nat n) d
         else if - 6 < n \<and> n \<le> 0 then ''0.'' @ replicate (nat (- n)) CHR ''0'' @ d
         else (if k = 1 then d else take 1 d @ ''.'' @ drop 1 d) @ ''e''
                @ (if 0 \<le> n - 1 then ''+'' else ''-'') @ digits (nat \<bar>n - 1\<bar>))"

text \<open>The text of a finite double other than zero; no text for a number that is no double.\<close>

definition jsDigits :: "rat \<Rightarrow> string" where
  "jsDigits q =
     (case shortestDigits \<bar>q\<bar> of
        None \<Rightarrow> []
      | Some (s, n) \<Rightarrow> (if q < 0 then ''-'' else []) @ formatDigits s n)"

subsection \<open>Regular expressions\<close>

text \<open>
  The two patterns of the source use character classes, sequence, \<^verbatim>\<open>?\<close>, \<^verbatim>\<open>+\<close> and
  the anchors only, so \<^verbatim>\<open>test\<close> and \<^verbatim>\<open>match\<close> succeed exactly when some part of the
  string belongs to the language of the pattern. Membership is decided by taking the
  derivative of the pattern by each character in turn.
\<close>

datatype regex =
    Never
  | Empty
  | Class "char list"
  | Or regex regex
  | Then regex regex
  | Many regex

definition Opt :: "regex \<Rightarrow> regex" where
  "Opt r = Or r Empty"

definition Some1 :: "regex \<Rightarrow> regex" where
  "Some1 r = Then r (Many r)"

fun nullable :: "regex \<Rightarrow> bool" where
  "nullable Never = False"
| "nullable Empty = True"
| "nullable (Class cs) = False"
| "nullable (Or r s) = (nullable r \<or> nullable s)"
| "nullable (Then r s) = (nullable r \<and> nullable s)"
| "nullable (Many r) = True"

fun deriv :: "char \<Rightarrow> regex \<Rightarrow> regex" where
  "deriv c Never = Never"
| "deriv c Empty = Never"
| "deriv c (Class cs) = (if c \<in> set cs then Empty else Never)"
| "deriv c (Or r s) = Or (deriv c r) (deriv c s)"
| "deriv c (Then r s) =
     (if nullable r then Or (Then (deriv c r) s) (deriv c s) else Then (deriv c r) s)"
| "deriv c (Many r) = Then (deriv c r) (Many r)"

fun matches :: "regex \<Rightarrow> string \<Rightarrow> bool" where
  "matches r [] = nullable r"
| "matches r (c # cs) = matches (deriv c r) cs"

declare matches.simps [simp del]

text \<open>
  What the derivatives decide: the strings of a pattern, with \<open>repeated A\<close> for any
  number of strings of \<open>A\<close> one after the other.
\<close>

inductive_set repeated :: "string set \<Rightarrow> string set" for A :: "string set" where
  none: "[] \<in> repeated A"
| more: "u \<in> A \<Longrightarrow> v \<in> repeated A \<Longrightarrow> u @ v \<in> repeated A"

fun lang :: "regex \<Rightarrow> string set" where
  "lang Never = {}"
| "lang Empty = {[]}"
| "lang (Class cs) = {[c] | c. c \<in> set cs}"
| "lang (Or r s) = lang r \<union> lang s"
| "lang (Then r s) = {u @ v | u v. u \<in> lang r \<and> v \<in> lang s}"
| "lang (Many r) = repeated (lang r)"

text \<open>The suffixes of a string, longest first: the places where a match ending at \<^verbatim>\<open>$\<close> can start.\<close>

fun tails :: "string \<Rightarrow> string list" where
  "tails [] = [] # []"
| "tails (c # cs) = (c # cs) # tails cs"

definition matchesAtEnd :: "regex \<Rightarrow> string \<Rightarrow> bool" where
  "matchesAtEnd r s = list_ex (matches r) (tails s)"

definition digit :: regex where
  "digit = Class ''0123456789''"

definition letters :: "char list" where
  "letters = ''ABCDEFGHIJKLMNOPQRSTUVWXYZabcdefghijklmnopqrstuvwxyz''"

subsection \<open>String methods and \<^verbatim>\<open>parseFloat\<close>\<close>

text \<open>\<^verbatim>\<open>value.split(sep)\<close> for a separator of one character: an empty string gives one empty part.\<close>

fun splitOn :: "char \<Rightarrow> string \<Rightarrow> string list" where
  "splitOn sep [] = [] # []"
| "splitOn sep (c # cs) =
     (if c = sep then [] # splitOn sep cs
      else (case splitOn sep cs of
              [] \<Rightarrow> [c] # []
            | p # ps \<Rightarrow> (c # p) # ps))"

definition isDigit :: "char \<Rightarrow> bool" where
  "isDigit c = (c \<in> set ''0123456789'')"

definition isWhiteSpace :: "char \<Rightarrow> bool" where
  "isWhiteSpace c = (c \<in> set [CHR 0x09, CHR 0x0A, CHR 0x0B, CHR 0x0C, CHR 0x0D, CHR 0x20])"

text \<open>The value of a digit is its place among the ten digits.\<close>

definition digitValue :: "char \<Rightarrow> nat" where
  "digitValue c = length (takeWhile (\<lambda>d. d \<noteq> c) ''0123456789'')"

definition decimalValue :: "string \<Rightarrow> nat" where
  "decimalValue ds = foldl (\<lambda>a c. 10 * a + digitValue c) 0 ds"

text \<open>
  The exponent part of a decimal literal: \<^verbatim>\<open>e\<close> or \<^verbatim>\<open>E\<close>, an optional sign and at
  least one digit. Anything else is not part of the number.
\<close>

definition exponentPart :: "string \<Rightarrow> int" where
  "exponentPart s =
     (case s of
        [] \<Rightarrow> 0
      | e # r \<Rightarrow>
          if e = CHR ''e'' \<or> e = CHR ''E'' then
            (case r of
               [] \<Rightarrow> 0
             | sg # ds \<Rightarrow>
                 if sg = CHR ''-'' then - int (decimalValue (takeWhile isDigit ds))
                 else if sg = CHR ''+'' then int (decimalValue (takeWhile isDigit ds))
                 else int (decimalValue (takeWhile isDigit r)))
          else 0)"

text \<open>
  An unsigned literal: \<^verbatim>\<open>Infinity\<close>, or digits with an optional fraction and an
  optional exponent; at least one digit is needed before or after the point.
\<close>

definition parseUnsigned :: "string \<Rightarrow> jsnum" where
  "parseUnsigned s =
     (if take 8 s = ''Infinity'' then PInf
      else
        (let ip = takeWhile isDigit s;
             r1 = dropWhile isDigit s;
             fp = (case r1 of [] \<Rightarrow> [] | d # r \<Rightarrow> if d = CHR ''.'' then takeWhile isDigit r else []);
             r2 = (case r1 of [] \<Rightarrow> [] | d # r \<Rightarrow> if d = CHR ''.'' then dropWhile isDigit r else r1)
         in if ip = [] \<and> fp = [] then NaN
            else toDouble (scale10 (of_nat (decimalValue (ip @ fp)) / 10 ^ length fp)
                             (exponentPart r2))))"

text \<open>
  \<^verbatim>\<open>parseFloat\<close>: leading white space is skipped (the white space of ASCII here), then
  the longest prefix that is a signed decimal literal is read and rounded to a double;
  NaN when there is none.
\<close>

definition parseFloat :: "string \<Rightarrow> jsnum" where
  "parseFloat s =
     (case dropWhile isWhiteSpace s of
        [] \<Rightarrow> NaN
      | c # r \<Rightarrow>
          if c = CHR ''-'' then jsneg (parseUnsigned r)
          else if c = CHR ''+'' then parseUnsigned r
          else parseUnsigned (c # r))"

section \<open>The tile styler\<close>

text \<open>\<^verbatim>\<open>/^-?\d+((\.\d+)?[A-Za-z%$]?)+$/\<close>\<close>

definition cssCalcAllowedValue :: regex where
  "cssCalcAllowedValue =
     Then (Opt (Class ''-''))
       (Then (Some1 digit)
         (Some1 (Then (Opt (Then (Class ''.'') (Some1 digit)))
                      (Opt (Class (letters @ ''%$''))))))"

text \<open>Wraps a CSS string in a calc function.\<close>

definition calc :: "string \<Rightarrow> string" where
  "calc e = ''calc('' @ e @ '')''"

text \<open>
  Appends pixels to a CSS string if no units are given: the pattern
  \<^verbatim>\<open>/([A-Za-z%]+)$/\<close> is looked for anywhere in the value.
\<close>

definition normalizeUnits :: "string \<Rightarrow> string" where
  "normalizeUnits v =
     (if matchesAtEnd (Some1 (Class (letters @ ''%''))) v then v else v @ ''px'')"

subsection \<open>Errors\<close>

text \<open>
  The source throws plain \<^verbatim>\<open>Error\<close> objects; the two kinds are told apart by their
  message, which each constructor carries. \<open>TypeError\<close> is what the runtime throws when a
  method is called on \<^verbatim>\<open>undefined\<close>.
\<close>

datatype error = InvalidDimension string | InvalidRatio string | TypeError

subsection \<open>Collaborators\<close>

text \<open>The two getters of the tile coordinator that \<^verbatim>\<open>init\<close> reads.\<close>

record TileCoordinator =
  rowCount :: jsnum
  trackerRowspan :: jsnum

record MatGridTile =
  colspan :: jsnum
  rowspan :: jsnum
  style :: "string \<rightharpoonup> string"

record TileStyleTarget =
  listStyle :: "string \<rightharpoonup> string"
  u_tiles :: "MatGridTile list option"

text \<open>
  Modelled from the spec: the method \<^verbatim>\<open>_setStyle\<close> of a tile is not part of the source
  file. Each tile exposes an operation that sets one style property, and the value
  \<^verbatim>\<open>null\<close> clears the property.
\<close>

definition tile_setStyle :: "MatGridTile \<Rightarrow> string \<Rightarrow> string option \<Rightarrow> MatGridTile" where
  "tile_setStyle tile property v = tile\<lparr>style := (style tile)(property := v)\<rparr>"

text \<open>
  Modelled from the spec: the method \<^verbatim>\<open>_setListStyle\<close> of the grid list is not part of
  the source file. It takes a pair of a property name and a value (or nothing) and sets
  that property on the container; the value \<^verbatim>\<open>null\<close> clears it.
\<close>

definition list_setListStyle ::
  "TileStyleTarget \<Rightarrow> (string \<times> string option) option \<Rightarrow> TileStyleTarget" where
  "list_setListStyle list st =
     (case st of
        None \<Rightarrow> list
      | Some (property, v) \<Rightarrow> list\<lparr>listStyle := (listStyle list)(property := v)\<rparr>)"

subsection \<open>The base class\<close>

text \<open>
  The fields \<^verbatim>\<open>_gutterSize\<close>, \<^verbatim>\<open>_rows\<close>, \<^verbatim>\<open>_rowspan\<close>, \<^verbatim>\<open>_cols\<close> and
  \<^verbatim>\<open>_direction\<close> (\<open>u_\<close> stands for the leading underscore). The constructor assigns
  the two counters only: the other fields are \<^verbatim>\<open>undefined\<close> until \<^verbatim>\<open>init\<close> runs.
\<close>

record TileStyler =
  u_gutterSize :: "string option"
  u_rows :: jsnum
  u_rowspan :: jsnum
  u_cols :: "jsnum option"
  u_direction :: "string option"

definition TileStyler_new :: TileStyler where
  "TileStyler_new =
     \<lparr>u_gutterSize = None, u_rows = Fin 0, u_rowspan = Fin 0, u_cols = None,
      u_direction = None\<rparr>"

definition TileStyler_init ::
  "'a TileStyler_scheme \<Rightarrow> string \<Rightarrow> TileCoordinator \<Rightarrow> jsnum \<Rightarrow> string \<Rightarrow> 'a TileStyler_scheme" where
  "TileStyler_init this gutterSize tracker cols direction =
     this\<lparr>u_gutterSize := Some (normalizeUnits gutterSize),
          u_rows := rowCount tracker,
          u_rowspan := trackerRowspan tracker,
          u_cols := Some cols,
          u_direction := Some direction\<rparr>"

definition getBaseTileSize ::
  "(rat \<Rightarrow> string) \<Rightarrow> 'a TileStyler_scheme \<Rightarrow> jsnum \<Rightarrow> jsnum \<Rightarrow> string" where
  "getBaseTileSize dec this sizePercent gutterFraction =
     ''('' @ numberToString dec sizePercent @ ''% - ('' @ stringOrUndefined (u_gutterSize this)
       @ '' * '' @ numberToString dec gutterFraction @ ''))''"

definition getTilePosition ::
  "(rat \<Rightarrow> string) \<Rightarrow> 'a TileStyler_scheme \<Rightarrow> string \<Rightarrow> jsnum \<Rightarrow> string" where
  "getTilePosition dec this baseSize offset =
     (if offset = Fin 0 then ''0''
      else calc (''('' @ baseSize @ '' + '' @ stringOrUndefined (u_gutterSize this) @ '') * ''
                 @ numberToString dec offset))"

definition getTileSize ::
  "(rat \<Rightarrow> string) \<Rightarrow> 'a TileStyler_scheme \<Rightarrow> string \<Rightarrow> jsnum \<Rightarrow> string" where
  "getTileSize dec this baseSize span' =
     ''('' @ baseSize @ '' * '' @ numberToString dec span' @ '') + (''
       @ numberToString dec (jssub span' (Fin 1)) @ '' * ''
       @ stringOrUndefined (u_gutterSize this) @ '')''"

text \<open>The two locals of \<^verbatim>\<open>setStyle\<close>.\<close>

definition percentWidthPerTile :: "'a TileStyler_scheme \<Rightarrow> jsnum" where
  "percentWidthPerTile this = jsdiv (Fin 100) (toNumber (u_cols this))"

definition gutterWidthFractionPerTile :: "'a TileStyler_scheme \<Rightarrow> jsnum" where
  "gutterWidthFractionPerTile this =
     jsdiv (jssub (toNumber (u_cols this)) (Fin 1)) (toNumber (u_cols this))"

definition setColStyles ::
  "(rat \<Rightarrow> string) \<Rightarrow> 'a TileStyler_scheme \<Rightarrow> MatGridTile \<Rightarrow> jsnum \<Rightarrow> jsnum \<Rightarrow> jsnum \<Rightarrow> MatGridTile" where
  "setColStyles dec this tile colIndex percentWidth gutterWidth =
     (let baseTileWidth = getBaseTileSize dec this percentWidth gutterWidth;
          side = (if u_direction this = Some ''rtl'' then ''right'' else ''left'');
          tile1 = tile_setStyle tile side (Some (getTilePosition dec this baseTileWidth colIndex))
      in tile_setStyle tile1 ''width''
           (Some (calc (getTileSize dec this baseTileWidth (colspan tile)))))"

text \<open>
  \<^verbatim>\<open>setStyle\<close> calls the abstract method \<^verbatim>\<open>setRowStyles\<close>: the model takes the
  subclass's method as the argument \<open>rowStyles\<close>. That method may assign fields of the
  styler, so it returns the styler with the tile.
\<close>

definition setStyle ::
  "('a TileStyler_scheme \<Rightarrow> MatGridTile \<Rightarrow> jsnum \<Rightarrow> jsnum \<Rightarrow> jsnum \<Rightarrow> 'a TileStyler_scheme \<times> MatGridTile)
   \<Rightarrow> (rat \<Rightarrow> string) \<Rightarrow> 'a TileStyler_scheme \<Rightarrow> MatGridTile \<Rightarrow> jsnum \<Rightarrow> jsnum
   \<Rightarrow> 'a TileStyler_scheme \<times> MatGridTile" where
  "setStyle rowStyles dec this tile rowIndex colIndex =
     (let tile1 = setColStyles dec this tile colIndex (percentWidthPerTile this)
                    (gutterWidthFractionPerTile this)
      in rowStyles this tile1 rowIndex (percentWidthPerTile this)
           (gutterWidthFractionPerTile this))"

definition getGutterSpan :: "(rat \<Rightarrow> string) \<Rightarrow> 'a TileStyler_scheme \<Rightarrow> string" where
  "getGutterSpan dec this =
     stringOrUndefined (u_gutterSize this) @ '' * ('' @ numberToString dec (u_rowspan this)
       @ '' - 1)''"

text \<open>
  \<^verbatim>\<open>getTileSpan\<close> may be handed a field that is still \<^verbatim>\<open>undefined\<close>; the value is only
  ever interpolated into the template of \<^verbatim>\<open>getTileSize\<close>, where it reads
  \<^verbatim>\<open>undefined\<close>.
\<close>

definition getTileSpan ::
  "(rat \<Rightarrow> string) \<Rightarrow> 'a TileStyler_scheme \<Rightarrow> string option \<Rightarrow> string" where
  "getTileSpan dec this tileHeight =
     numberToString dec (u_rowspan this) @ '' * ''
       @ getTileSize dec this (stringOrUndefined tileHeight) (Fin 1)"

definition TileStyler_getComputedHeight :: "'a TileStyler_scheme \<Rightarrow> (string \<times> string) option" where
  "TileStyler_getComputedHeight this = None"

text \<open>The loop of every \<^verbatim>\<open>reset\<close>: two properties are cleared on each tile.\<close>

definition clearTiles :: "string \<Rightarrow> string \<Rightarrow> MatGridTile list \<Rightarrow> MatGridTile list" where
  "clearTiles p q ts = map (\<lambda>tile. tile_setStyle (tile_setStyle tile p None) q None) ts"

subsection \<open>Fixed row height\<close>

record FixedTileStyler = TileStyler +
  fixedRowHeight :: string

definition FixedTileStyler_new :: "string \<Rightarrow> error + FixedTileStyler" where
  "FixedTileStyler_new v =
     Inr \<lparr>u_gutterSize = None, u_rows = Fin 0, u_rowspan = Fin 0, u_cols = None,
          u_direction = None, fixedRowHeight = v\<rparr>"

definition FixedTileStyler_init ::
  "FixedTileStyler \<Rightarrow> string \<Rightarrow> TileCoordinator \<Rightarrow> jsnum \<Rightarrow> string \<Rightarrow> error + FixedTileStyler" where
  "FixedTileStyler_init this gutterSize tracker cols direction =
     (let this1 = TileStyler_init this gutterSize tracker cols direction;
          this2 = this1\<lparr>fixedRowHeight := normalizeUnits (fixedRowHeight this1)\<rparr>
      in if \<not> matches cssCalcAllowedValue (fixedRowHeight this2)
         then Inl (InvalidDimension
                     (''Invalid value '' @ dquote @ fixedRowHeight this2 @ dquote @ '' set as rowHeight.''))
         else Inr this2)"

definition FixedTileStyler_setRowStyles ::
  "(rat \<Rightarrow> string) \<Rightarrow> FixedTileStyler \<Rightarrow> MatGridTile \<Rightarrow> jsnum \<Rightarrow> jsnum \<Rightarrow> jsnum
   \<Rightarrow> FixedTileStyler \<times> MatGridTile" where
  "FixedTileStyler_setRowStyles dec this tile rowIndex percentWidth gutterWidth =
     (let tile1 = tile_setStyle tile ''top''
                    (Some (getTilePosition dec this (fixedRowHeight this) rowIndex))
      in (this, tile_setStyle tile1 ''height''
                  (Some (calc (getTileSize dec this (fixedRowHeight this) (rowspan tile))))))"

definition FixedTileStyler_getComputedHeight ::
  "(rat \<Rightarrow> string) \<Rightarrow> FixedTileStyler \<Rightarrow> (string \<times> string) option" where
  "FixedTileStyler_getComputedHeight dec this =
     Some (''height'',
           calc (getTileSpan dec this (Some (fixedRowHeight this)) @ '' + ''
                 @ getGutterSpan dec this))"

definition FixedTileStyler_reset :: "TileStyleTarget \<Rightarrow> error + TileStyleTarget" where
  "FixedTileStyler_reset list =
     (let list1 = list_setListStyle list (Some (''height'', None))
      in case u_tiles list1 of
           None \<Rightarrow> Inr list1
         | Some ts \<Rightarrow> Inr (list1\<lparr>u_tiles := Some (clearTiles ''top'' ''height'' ts)\<rparr>))"

subsection \<open>Row height from a ratio\<close>

text \<open>
  The two fields \<^verbatim>\<open>rowHeightRatio\<close> and \<^verbatim>\<open>baseTileHeight\<close> are declared without a
  value: the first is assigned by \<^verbatim>\<open>_parseRatio\<close>, the second by \<^verbatim>\<open>setRowStyles\<close>.
\<close>

record RatioTileStyler = TileStyler +
  rowHeightRatio :: "jsnum option"
  baseTileHeight :: "string option"

definition RatioTileStyler_parseRatio :: "RatioTileStyler \<Rightarrow> string \<Rightarrow> error + RatioTileStyler" where
  "RatioTileStyler_parseRatio this v =
     (let ratioParts = splitOn CHR '':'' v
      in if length ratioParts \<noteq> 2
         then Inl (InvalidRatio
                     (''mat-grid-list: invalid ratio given for row-height: '' @ dquote @ v
                        @ dquote))
         else Inr (this\<lparr>rowHeightRatio :=
                          Some (jsdiv (parseFloat (ratioParts ! 0)) (parseFloat (ratioParts ! 1)))\<rparr>))"

definition RatioTileStyler_new :: "string \<Rightarrow> error + RatioTileStyler" where
  "RatioTileStyler_new v =
     RatioTileStyler_parseRatio
       \<lparr>u_gutterSize = None, u_rows = Fin 0, u_rowspan = Fin 0, u_cols = None,
        u_direction = None, rowHeightRatio = None, baseTileHeight = None\<rparr> v"

text \<open>The local \<^verbatim>\<open>percentHeightPerTile\<close> of \<^verbatim>\<open>setRowStyles\<close>.\<close>

definition RatioTileStyler_percentHeightPerTile :: "RatioTileStyler \<Rightarrow> jsnum \<Rightarrow> jsnum" where
  "RatioTileStyler_percentHeightPerTile this percentWidth =
     jsdiv percentWidth (toNumber (rowHeightRatio this))"

definition RatioTileStyler_setRowStyles ::
  "(rat \<Rightarrow> string) \<Rightarrow> RatioTileStyler \<Rightarrow> MatGridTile \<Rightarrow> jsnum \<Rightarrow> jsnum \<Rightarrow> jsnum
   \<Rightarrow> RatioTileStyler \<times> MatGridTile" where
  "RatioTileStyler_setRowStyles dec this tile rowIndex percentWidth gutterWidth =
     (let percentHeightPerTile = RatioTileStyler_percentHeightPerTile this percentWidth;
          this1 = this\<lparr>baseTileHeight :=
                         Some (getBaseTileSize dec this percentHeightPerTile gutterWidth)\<rparr>;
          tile1 = tile_setStyle tile ''marginTop''
                    (Some (getTilePosition dec this1 (stringOrUndefined (baseTileHeight this1))
                             rowIndex))
      in (this1, tile_setStyle tile1 ''paddingTop''
                   (Some (calc (getTileSize dec this1 (stringOrUndefined (baseTileHeight this1))
                                  (rowspan tile))))))"

definition RatioTileStyler_getComputedHeight ::
  "(rat \<Rightarrow> string) \<Rightarrow> RatioTileStyler \<Rightarrow> (string \<times> string) option" where
  "RatioTileStyler_getComputedHeight dec this =
     Some (''paddingBottom'',
           calc (getTileSpan dec this (baseTileHeight this) @ '' + '' @ getGutterSpan dec this))"

text \<open>
  This \<^verbatim>\<open>reset\<close> calls \<^verbatim>\<open>forEach\<close> on the tiles without testing that the collection
  is there.
\<close>

definition RatioTileStyler_reset :: "TileStyleTarget \<Rightarrow> error + TileStyleTarget" where
  "RatioTileStyler_reset list =
     (let list1 = list_setListStyle list (Some (''paddingBottom'', None))
      in case u_tiles list1 of
           None \<Rightarrow> Inl TypeError
         | Some ts \<Rightarrow> Inr (list1\<lparr>u_tiles := Some (clearTiles ''marginTop'' ''paddingTop'' ts)\<rparr>))"

subsection \<open>Row height that fits the container\<close>

type_synonym FitTileStyler = TileStyler

definition FitTileStyler_new :: FitTileStyler where
  "FitTileStyler_new = TileStyler_new"

definition FitTileStyler_setRowStyles ::
  "(rat \<Rightarrow> string) \<Rightarrow> FitTileStyler \<Rightarrow> MatGridTile \<Rightarrow> jsnum \<Rightarrow> jsnum \<Rightarrow> jsnum
   \<Rightarrow> FitTileStyler \<times> MatGridTile" where
  "FitTileStyler_setRowStyles dec this tile rowIndex percentWidth gutterWidth =
     (let percentHeightPerTile = jsdiv (Fin 100) (u_rowspan this);
          gutterHeightPerTile = jsdiv (jssub (u_rows this) (Fin 1)) (u_rows this);
          baseTileHeight = getBaseTileSize dec this percentHeightPerTile gutterHeightPerTile;
          tile1 = tile_setStyle tile ''top'' (Some (getTilePosition dec this baseTileHeight rowIndex))
      in (this, tile_setStyle tile1 ''height''
                  (Some (calc (getTileSize dec this baseTileHeight (rowspan tile))))))"

definition FitTileStyler_reset :: "TileStyleTarget \<Rightarrow> error + TileStyleTarget" where
  "FitTileStyler_reset list =
     (case u_tiles list of
        None \<Rightarrow> Inr list
      | Some ts \<Rightarrow> Inr (list\<lparr>u_tiles := Some (clearTiles ''top'' ''height'' ts)\<rparr>))"

section \<open>What an emitted expression evaluates to\<close>

text \<open>
  The styler only writes text; the browser evaluates it when it lays the grid out. To
  state what an emitted text evaluates to, an expression is given as a tree, together
  with the text it is written as and with its value for a container of width \<open>w\<close>
  pixels. A value is a length in pixels or a plain number; a percentage is a length, that
  share of the width, and an expression that adds a number to a length or multiplies two
  lengths has no value. A sub-expression can be left as opaque text (\<open>Raw\<close>): the
  environment \<open>env\<close> says what it stands for. A numeral in the tree has the value of
  the decimal that stands in the text.
\<close>

datatype cssExpr =
    Raw string
  | Px rat
  | Pct rat
  | Num rat
  | Plus cssExpr cssExpr
  | Minus cssExpr cssExpr
  | Times cssExpr cssExpr
  | Over cssExpr cssExpr
  | Paren cssExpr
  | Calc cssExpr

datatype cssValue = Length rat | Scalar rat

fun render :: "(rat \<Rightarrow> string) \<Rightarrow> cssExpr \<Rightarrow> string" where
  "render dec (Raw s) = s"
| "render dec (Px q) = numberToString dec (Fin q) @ ''px''"
| "render dec (Pct q) = numberToString dec (Fin q) @ ''%''"
| "render dec (Num q) = numberToString dec (Fin q)"
| "render dec (Plus a b) = render dec a @ '' + '' @ render dec b"
| "render dec (Minus a b) = render dec a @ '' - '' @ render dec b"
| "render dec (Times a b) = render dec a @ '' * '' @ render dec b"
| "render dec (Over a b) = render dec a @ '' / '' @ render dec b"
| "render dec (Paren a) = ''('' @ render dec a @ '')''"
| "render dec (Calc a) = ''calc('' @ render dec a @ '')''"

fun addValues :: "cssValue option \<Rightarrow> cssValue option \<Rightarrow> cssValue option" where
  "addValues (Some (Length x)) (Some (Length y)) = Some (Length (x + y))"
| "addValues (Some (Scalar x)) (Some (Scalar y)) = Some (Scalar (x + y))"
| "addValues _ _ = None"

fun subValues :: "cssValue option \<Rightarrow> cssValue option \<Rightarrow> cssValue option" where
  "subValues (Some (Length x)) (Some (Length y)) = Some (Length (x - y))"
| "subValues (Some (Scalar x)) (Some (Scalar y)) = Some (Scalar (x - y))"
| "subValues _ _ = None"

fun mulValues :: "cssValue option \<Rightarrow> cssValue option \<Rightarrow> cssValue option" where
  "mulValues (Some (Length x)) (Some (Scalar y)) = Some (Length (x * y))"
| "mulValues (Some (Scalar x)) (Some (Length y)) = Some (Length (x * y))"
| "mulValues (Some (Scalar x)) (Some (Scalar y)) = Some (Scalar (x * y))"
| "mulValues _ _ = None"

fun divValues :: "cssValue option \<Rightarrow> cssValue option \<Rightarrow> cssValue option" where
  "divValues (Some (Length x)) (Some (Scalar y)) = (if y = 0 then None else Some (Length (x / y)))"
| "divValues (Some (Scalar x)) (Some (Scalar y)) = (if y = 0 then None else Some (Scalar (x / y)))"
| "divValues _ _ = None"

fun eval :: "rat \<Rightarrow> (string \<Rightarrow> cssValue option) \<Rightarrow> cssExpr \<Rightarrow> cssValue option" where
  "eval w env (Raw s) = env s"
| "eval w env (Px q) = Some (Length q)"
| "eval w env (Pct q) = Some (Length (q / 100 * w))"
| "eval w env (Num q) = Some (Scalar q)"
| "eval w env (Plus a b) = addValues (eval w env a) (eval w env b)"
| "eval w env (Minus a b) = subValues (eval w env a) (eval w env b)"
| "eval w env (Times a b) = mulValues (eval w env a) (eval w env b)"
| "eval w env (Over a b) = divValues (eval w env a) (eval w env b)"
| "eval w env (Paren a) = eval w env a"
| "eval w env (Calc a) = eval w env a"

subsection \<open>Reading the numerals of a text\<close>

text \<open>
  A numeral in an emitted text is a decimal, and its value is that decimal. For the
  trees of such texts \<open>render\<close> is used with \<open>exactDecimal\<close>, which writes a number
  that has a finite decimal expansion with all its digits: the integer part, and after
  the point as many digits as the number needs (at most 25; no text otherwise).
\<close>

definition wholeAt :: "rat \<Rightarrow> nat \<Rightarrow> bool" where
  "wholeAt a j = (a * 10 ^ j = of_int \<lfloor>a * 10 ^ j\<rfloor>)"

definition exactDecimal :: "rat \<Rightarrow> string" where
  "exactDecimal q =
     (case List.find (wholeAt \<bar>q\<bar>)
             [0, 1, 2, 3, 4, 5, 6, 7, 8, 9, 10, 11, 12, 13, 14, 15, 16, 17, 18, 19, 20, 21, 22,
              23, 24, 25] of
        None \<Rightarrow> []
      | Some j \<Rightarrow>
          (let d = digits (nat \<lfloor>\<bar>q\<bar> * 10 ^ j\<rfloor>);
               p = replicate (Suc j - length d) CHR ''0'' @ d
           in (if q < 0 then ''-'' else []) @ take (length p - j) p
                @ (if j = 0 then [] else ''.'' @ drop (length p - j) p)))"

subsection \<open>The trees of the emitted texts\<close>

text \<open>The size of a tile that spans one cell: the text that \<^verbatim>\<open>getTileSize\<close> writes for a span of 1.\<close>

definition singleSpanExpr :: "string \<Rightarrow> string \<Rightarrow> cssExpr" where
  "singleSpanExpr b g = Plus (Paren (Times (Raw b) (Num 1))) (Paren (Times (Num 0) (Raw g)))"

text \<open>
  The scenario of the specification: three columns, a gutter of \<^verbatim>\<open>4px\<close>, a fixed row
  height of \<^verbatim>\<open>100px\<close> and a tile of one cell in row 1, column 2. \<open>leftExpr\<close> is the
  tree of the horizontal position that the styler writes,
  \<^verbatim>\<open>calc(((33.333333333333336% - (4px * 0.6666666666666666)) + 4px) * 2)\<close>, with the two
  numerals as the decimals they are; \<open>leftExprSpec\<close> is the tree of
  \<^verbatim>\<open>calc((( (100%/3 - (4px * 2/3)) ) + 4px) * 2)\<close>, the expression of the specification;
  \<open>heightExpr\<close> is the tree of the vertical extent that the styler writes.
\<close>

definition leftExpr :: cssExpr where
  "leftExpr =
     Calc (Times (Paren (Plus (Paren (Minus (Pct (33333333333333336 / 10 ^ 15))
                                            (Paren (Times (Px 4)
                                                      (Num (6666666666666666 / 10 ^ 16))))))
                              (Px 4)))
                 (Num 2))"

definition leftExprSpec :: cssExpr where
  "leftExprSpec =
     Calc (Times (Paren (Plus (Paren (Paren (Minus (Over (Pct 100) (Num 3))
                                                  (Paren (Over (Times (Px 4) (Num 2)) (Num 3))))))
                              (Px 4)))
                 (Num 2))"

definition heightExpr :: cssExpr where
  "heightExpr = Calc (Plus (Paren (Times (Px 100) (Num 1))) (Paren (Times (Num 0) (Px 4))))"

section \<open>Inputs of the examples\<close>

text \<open>A grid list with no tile, on which both container properties are set.\<close>

definition emptyGrid :: TileStyleTarget where
  "emptyGrid =
     \<lparr>listStyle = [''height'' \<mapsto> ''208px'', ''paddingBottom'' \<mapsto> ''50%''], u_tiles = Some []\<rparr>"

text \<open>The same grid list before its tiles have been collected: \<^verbatim>\<open>_tiles\<close> is \<^verbatim>\<open>undefined\<close>.\<close>

definition uncollectedGrid :: TileStyleTarget where
  "uncollectedGrid =
     \<lparr>listStyle = [''height'' \<mapsto> ''208px'', ''paddingBottom'' \<mapsto> ''50%''], u_tiles = None\<rparr>"

text \<open>A coordinator that placed two rows, and one that placed none.\<close>

definition twoRows :: TileCoordinator where
  "twoRows = \<lparr>rowCount = Fin 2, trackerRowspan = Fin 2\<rparr>"

definition noRows :: TileCoordinator where
  "noRows = \<lparr>rowCount = Fin 0, trackerRowspan = Fin 0\<rparr>"

text \<open>Stylers of the base class after \<^verbatim>\<open>init\<close>, for three columns and for one.\<close>

definition threeColumns :: TileStyler where
  "threeColumns = TileStyler_init TileStyler_new ''4px'' twoRows (Fin 3) ''ltr''"

definition oneColumn :: TileStyler where
  "oneColumn = TileStyler_init TileStyler_new ''4px'' twoRows (Fin 1) ''ltr''"

text \<open>The fixed styler of the scenario after \<^verbatim>\<open>init\<close>, in a grid of two rows.\<close>

definition scenarioStyler :: FixedTileStyler where
  "scenarioStyler =
     \<lparr>u_gutterSize = Some ''4px'', u_rows = Fin 2, u_rowspan = Fin 2, u_cols = Some (Fin 3),
      u_direction = Some ''ltr'', fixedRowHeight = ''100px''\<rparr>"

text \<open>A tile of one cell with no style yet.\<close>

definition unitTile :: MatGridTile where
  "unitTile = \<lparr>colspan = Fin 1, rowspan = Fin 1, style = Map.empty\<rparr>"

text \<open>A stand-in for the digits of the numbers that are not integers.\<close>

definition someDigits :: "rat \<Rightarrow> string" where
  "someDigits q = ''?''"

section \<open>Properties\<close>

subsection \<open>The matcher decides the language of the pattern\<close>

lemma nullable_lang: "nullable r = ([] \<in> lang r)"
  by (induction r) (auto intro: repeated.none)

lemma repeated_Cons:
  "(c # s \<in> repeated A) = (\<exists>u v. s = u @ v \<and> c # u \<in> A \<and> v \<in> repeated A)"
proof
  assume "c # s \<in> repeated A"
  then show "\<exists>u v. s = u @ v \<and> c # u \<in> A \<and> v \<in> repeated A"
  proof (induction "c # s" rule: repeated.induct)
    case (more u v)
    show ?case
    proof (cases u)
      case Nil
      with more show ?thesis by simp
    next
      case (Cons a u')
      with more have "s = u' @ v" "c # u' \<in> A" "v \<in> repeated A" by auto
      then show ?thesis by blast
    qed
  qed
next
  assume "\<exists>u v. s = u @ v \<and> c # u \<in> A \<and> v \<in> repeated A"
  then obtain u v where "s = u @ v" "c # u \<in> A" "v \<in> repeated A" by blast
  then show "c # s \<in> repeated A"
    using repeated.more [of "c # u" A v] by simp
qed

lemma lang_deriv: "lang (deriv c r) = {s. c # s \<in> lang r}"
proof (induction r)
  case (Then r1 r2)
  have "\<And>s. (c # s \<in> lang (Then r1 r2)) =
          ((\<exists>u v. s = u @ v \<and> c # u \<in> lang r1 \<and> v \<in> lang r2) \<or>
           ([] \<in> lang r1 \<and> c # s \<in> lang r2))"
    by (auto simp: Cons_eq_append_conv) 
  with Then show ?case
    by (auto simp: nullable_lang)
next
  case (Many r)
  then show ?case
    by (auto simp: repeated_Cons)
qed auto

lemma matches_lang: "matches r s = (s \<in> lang r)"
  by (induction s arbitrary: r) (auto simp: matches.simps nullable_lang lang_deriv)

lemma tails_suffixes: "set (tails s) = {v. \<exists>u. s = u @ v}"
  by (induction s) (auto simp: Cons_eq_append_conv)

lemma repeated_all: "(v \<in> repeated {[c] | c. c \<in> set cs}) = (set v \<subseteq> set cs)"
proof
  assume "v \<in> repeated {[c] | c. c \<in> set cs}"
  then show "set v \<subseteq> set cs"
    by (induction rule: repeated.induct) auto
next
  assume "set v \<subseteq> set cs"
  then show "v \<in> repeated {[c] | c. c \<in> set cs}"
  proof (induction v)
    case Nil
    show ?case by (rule repeated.none)
  next
    case (Cons a v)
    then have "[a] \<in> {[c] | c. c \<in> set cs}" "v \<in> repeated {[c] | c. c \<in> set cs}" by auto
    then have "[a] @ v \<in> repeated {[c] | c. c \<in> set cs}" by (rule repeated.more)
    then show ?case by simp
  qed
qed

lemma matches_Some1_Class:
  "matches (Some1 (Class cs)) v = (v \<noteq> [] \<and> set v \<subseteq> set cs)"
proof -
  have "matches (Some1 (Class cs)) v =
          (\<exists>c w. v = c # w \<and> c \<in> set cs \<and> w \<in> repeated {[c] | c. c \<in> set cs})"
  proof
    assume "matches (Some1 (Class cs)) v"
    then show "\<exists>c w. v = c # w \<and> c \<in> set cs \<and> w \<in> repeated {[c] | c. c \<in> set cs}"
      by (auto simp: matches_lang Some1_def)
  next
    assume "\<exists>c w. v = c # w \<and> c \<in> set cs \<and> w \<in> repeated {[c] | c. c \<in> set cs}"
    then obtain c w where "v = [c] @ w" "c \<in> set cs" "w \<in> repeated {[c] | c. c \<in> set cs}"
      by auto
    then show "matches (Some1 (Class cs)) v"
      unfolding matches_lang Some1_def lang.simps by blast
  qed
  also have "\<dots> = (v \<noteq> [] \<and> set v \<subseteq> set cs)"
    by (cases v) (auto simp: repeated_all)
  finally show ?thesis .
qed

lemma matchesAtEnd_last:
  "matchesAtEnd (Some1 (Class cs)) s = (s \<noteq> [] \<and> last s \<in> set cs)"
proof
  assume "matchesAtEnd (Some1 (Class cs)) s"
  then obtain u v where "s = u @ v" "v \<noteq> []" "set v \<subseteq> set cs"
    by (auto simp: matchesAtEnd_def list_ex_iff tails_suffixes matches_Some1_Class)
  then show "s \<noteq> [] \<and> last s \<in> set cs"
    by (auto simp: subset_iff)
next
  assume a: "s \<noteq> [] \<and> last s \<in> set cs"
  then have "s = butlast s @ [last s]" by simp
  then have "[last s] \<in> set (tails s)"
    unfolding tails_suffixes by blast
  moreover have "matches (Some1 (Class cs)) [last s]"
    using a by (simp add: matches_Some1_Class)
  ultimately show "matchesAtEnd (Some1 (Class cs)) s"
    by (auto simp: matchesAtEnd_def list_ex_iff)
qed

text \<open>A value keeps its unit when its last character is a letter or a percent sign.\<close>

lemma normalizeUnits_last:
  "normalizeUnits v = (if v \<noteq> [] \<and> last v \<in> set (letters @ ''%'') then v else v @ ''px'')"
  by (simp only: normalizeUnits_def matchesAtEnd_last)

subsection \<open>Rounding to a double\<close>

lemma floor_numeral_quotient [simp]:
  "\<lfloor>numeral a / numeral b :: rat\<rfloor> = numeral a div numeral b"
  using floor_divide_of_int_eq [of "numeral a" "numeral b", where ?'a = rat] by simp

lemmas double_eval = toDouble_def exponentIn.simps roundHalfEven_def Let_def

lemma roundHalfEven_of_int [simp]: "roundHalfEven (of_int m) = m"
  by (simp add: roundHalfEven_def)

lemma roundHalfEven_error: "\<bar>of_int (roundHalfEven x) - x\<bar> \<le> 1 / 2"
proof -
  have "of_int \<lfloor>x\<rfloor> \<le> x" "x < of_int \<lfloor>x\<rfloor> + 1" by linarith+
  then show ?thesis
    by (auto simp add: roundHalfEven_def abs_le_iff)
qed

lemma exponentIn_bounds:
  "2 \<le> b \<Longrightarrow> 0 < q \<Longrightarrow> b powi exponentIn b q \<le> q \<and> q < b powi (exponentIn b q + 1)"
proof (induction b q rule: exponentIn.induct)
  case (1 b q)
  then have b0: "0 < b" "b \<noteq> 0" by simp_all
  from 1 have guard: "\<not> (b < 2 \<or> q \<le> 0)" by simp
  show ?case
  proof (cases "q < 1")
    case True
    let ?e = "exponentIn b (b * q)"
    from guard True have e: "exponentIn b q = ?e - 1"
      by (subst exponentIn.simps) simp
    from 1 b0 have "0 < b * q" by simp
    with "1.IH"(1) [OF guard True] "1.prems"(1)
    have ih: "b powi ?e \<le> b * q" "b * q < b powi (?e + 1)" by simp_all
    have low: "b powi (?e - 1) * b = b powi ?e"
      using b0 by (simp add: power_int_minus_mult)
    have high: "b powi (?e + 1) = b powi ?e * b"
      using b0 by (intro power_int_add_1) simp
    from ih(1) low have "b powi (?e - 1) * b \<le> q * b" by (simp add: mult.commute)
    with b0 have l: "b powi (?e - 1) \<le> q" by simp
    from ih(2) high have "q * b < b powi ?e * b" by (simp add: mult.commute)
    with b0 have h: "q < b powi ?e" by simp
    from l h show ?thesis by (simp add: e)
  next
    case False
    show ?thesis
    proof (cases "b \<le> q")
      case True
      let ?e = "exponentIn b (q / b)"
      from guard False True have e: "exponentIn b q = ?e + 1"
        by (subst exponentIn.simps) simp
      from 1 b0 have "0 < q / b" by simp
      with "1.IH"(2) [OF guard False True] "1.prems"(1)
      have ih: "b powi ?e \<le> q / b" "q / b < b powi (?e + 1)" by simp_all
      have s1: "b powi (?e + 1) = b powi ?e * b"
        using b0 by (intro power_int_add_1) simp
      have s2: "b powi (?e + 1 + 1) = b powi (?e + 1) * b"
        using b0 by (intro power_int_add_1) simp
      from ih(1) b0 have l: "b powi ?e * b \<le> q" by (simp add: pos_le_divide_eq)
      from ih(2) b0 have h: "q < b powi (?e + 1) * b" by (simp add: pos_divide_less_eq)
      from l h show ?thesis by (simp only: e s1 s2)
    next
      case notle: False
      from guard False notle have e: "exponentIn b q = 0"
        by (subst exponentIn.simps) simp
      from False notle show ?thesis by (simp add: e)
    qed
  qed
qed

lemma exponentIn_unique:
  assumes "2 \<le> b" and "0 < q" and "b powi e \<le> q" and "q < b powi (e + 1)"
  shows "exponentIn b q = e"
proof -
  let ?E = "exponentIn b q"
  from assms(1) have b1: "1 < b" "1 \<le> b" by simp_all
  from exponentIn_bounds [OF assms(1,2)]
  have E: "b powi ?E \<le> q" "q < b powi (?E + 1)" by simp_all
  have "?E < e + 1"
  proof (rule ccontr)
    assume "\<not> ?E < e + 1"
    then have "e + 1 \<le> ?E" by simp
    with b1 have "b powi (e + 1) \<le> b powi ?E" by (intro power_int_increasing)
    with E(1) assms(4) show False by simp
  qed
  moreover have "e < ?E + 1"
  proof (rule ccontr)
    assume "\<not> e < ?E + 1"
    then have "?E + 1 \<le> e" by simp
    with b1 have "b powi (?E + 1) \<le> b powi e" by (intro power_int_increasing)
    with E(2) assms(3) show False by simp
  qed
  ultimately show ?thesis by simp
qed

lemma toDouble_minus: "toDouble (- q) = jsneg (toDouble q)"
  by (simp add: toDouble_def Let_def)

lemma toDouble_positive_int:
  assumes "0 < n" and "n \<le> 9007199254740992"
  shows "toDouble (of_int n) = Fin (of_int n)"
proof -
  let ?q = "of_int n :: rat"
  let ?E = "exponentIn 2 ?q"
  from assms have q: "0 < ?q" "1 \<le> ?q" "?q \<le> 9007199254740992" by simp_all
  from exponentIn_bounds [of 2 ?q] q(1)
  have E: "2 powi ?E \<le> ?q" "?q < 2 powi (?E + 1)" by simp_all
  have E0: "0 \<le> ?E"
  proof (rule ccontr)
    assume "\<not> 0 \<le> ?E"
    then have "?E + 1 \<le> 0" by simp
    then have "(2 :: rat) powi (?E + 1) \<le> 2 powi 0" by (intro power_int_increasing) simp_all
    with E(2) q(2) show False by simp
  qed
  have E53: "?E \<le> 53"
  proof (rule ccontr)
    assume "\<not> ?E \<le> 53"
    then have "54 \<le> ?E" by simp
    then have "(2 :: rat) powi 54 \<le> 2 powi ?E" by (intro power_int_increasing) simp_all
    with E(1) q(3) show False by simp
  qed
  have v: "of_int (roundHalfEven (?q * 2 powi (52 - ?E))) * 2 powi (?E - 52) = ?q"
  proof (cases "?E \<le> 52")
    case True
    then have p: "(2 :: rat) powi (52 - ?E) = 2 ^ nat (52 - ?E)"
      by (simp add: power_int_nonneg_exp)
    have "?q * 2 ^ nat (52 - ?E) = of_int (n * 2 ^ nat (52 - ?E))" by simp
    then have r: "roundHalfEven (?q * 2 powi (52 - ?E)) = n * 2 ^ nat (52 - ?E)"
      by (simp only: p roundHalfEven_of_int)
    have "(2 :: rat) powi (?E - 52) = 2 powi (- (52 - ?E))" by simp
    also have "\<dots> = inverse (2 powi (52 - ?E))" by (rule power_int_minus)
    finally have i: "(2 :: rat) powi (?E - 52) = inverse (2 ^ nat (52 - ?E))" by (simp only: p)
    show ?thesis by (simp only: r i) simp
  next
    case False
    with E53 have e: "?E = 53" by simp
    with E(1) q(3) have big: "?q = 9007199254740992" by simp
    have "of_int (roundHalfEven (?q * 2 powi (52 - 53))) * 2 powi (53 - 52) = ?q"
      unfolding big by (simp add: roundHalfEven_def)
    then show ?thesis by (simp only: e)
  qed
  have m: "max ?E (- 1022) = ?E" using E0 by simp
  from q have small: "\<not> (2 :: rat) ^ 1024 \<le> ?q" by simp
  from q(1) have nz: "?q \<noteq> 0" "\<bar>?q\<bar> = ?q" by simp_all
  show ?thesis
    unfolding toDouble_def Let_def nz(2) m v using nz(1) small q(1) by (simp only: if_False if_True)
qed

lemma toDouble_of_int:
  assumes "\<bar>n\<bar> \<le> 9007199254740992"
  shows "toDouble (of_int n) = Fin (of_int n)"
proof (cases "0 < n")
  case True
  with assms show ?thesis by (intro toDouble_positive_int) simp_all
next
  case False
  show ?thesis
  proof (cases "n = 0")
    case True
    then show ?thesis by (simp add: toDouble_def)
  next
    case nz: False
    with False assms have "0 < - n" "- n \<le> 9007199254740992" by simp_all
    then have "toDouble (of_int (- n)) = Fin (of_int (- n))" by (rule toDouble_positive_int)
    then have "jsneg (toDouble (of_int n)) = Fin (- of_int n)"
      by (simp add: toDouble_minus)
    then show ?thesis by (cases "toDouble (of_int n)") simp_all
  qed
qed

lemma toDouble_of_nat:
  "n \<le> 9007199254740992 \<Longrightarrow> toDouble (of_nat n) = Fin (of_nat n)"
  using toDouble_of_int [of "int n"] by simp

lemma toDouble_numeral [simp]:
  "numeral k \<le> (9007199254740992 :: int) \<Longrightarrow> toDouble (numeral k) = Fin (numeral k)"
  "numeral k \<le> (9007199254740992 :: int) \<Longrightarrow> toDouble (- numeral k) = Fin (- numeral k)"
  "toDouble 0 = Fin 0"
  "toDouble 1 = Fin 1"
  "toDouble (- 1) = Fin (- 1)"
  using toDouble_of_int [of "numeral k"] toDouble_of_int [of "- numeral k"]
    toDouble_of_int [of 0] toDouble_of_int [of 1] toDouble_of_int [of "- 1"]
  by simp_all

text \<open>Between a half and one the doubles are the multiples of \<open>2 ^ - 53\<close>.\<close>

lemma toDouble_fraction:
  assumes "1 / 2 \<le> q" and "q < 1"
  shows "toDouble q = Fin (of_int (roundHalfEven (q * 2 ^ 53)) / 2 ^ 53)"
proof -
  from assms have q0: "0 < q" by simp
  have e: "exponentIn 2 q = - 1"
    using assms q0 by (intro exponentIn_unique) simp_all
  from roundHalfEven_error [of "q * 2 ^ 53"] assms
  have "of_int (roundHalfEven (q * 2 ^ 53)) \<le> q * 2 ^ 53 + 1 / 2" by linarith
  with assms have "of_int (roundHalfEven (q * 2 ^ 53)) / 2 ^ 53 < (2 :: rat)" by simp
  then have small: "\<not> (2 :: rat) ^ 1024 \<le> of_int (roundHalfEven (q * 2 ^ 53)) / 2 ^ 53"
    by simp
  from q0 small show ?thesis
    by (simp add: toDouble_def Let_def e power_int_minus_divide)
qed

lemma toDouble_fraction_error:
  assumes "1 / 2 \<le> q" and "q < 1"
  shows "\<bar>of_int (roundHalfEven (q * 2 ^ 53)) / 2 ^ 53 - q\<bar> \<le> 1 / 2 ^ 54"
proof -
  have "\<bar>of_int (roundHalfEven (q * 2 ^ 53)) / 2 ^ 53 - q\<bar>
          = \<bar>of_int (roundHalfEven (q * 2 ^ 53)) - q * 2 ^ 53\<bar> / 2 ^ 53"
    by (simp add: field_simps abs_divide)
  also have "\<dots> \<le> (1 / 2) / 2 ^ 53"
    using roundHalfEven_error [of "q * 2 ^ 53"] by (intro divide_right_mono) simp_all
  finally show ?thesis by simp
qed

subsection \<open>The digits of the two quotients of three columns\<close>

lemma toDouble_third_of_hundred:
  "toDouble (100 / 3) = Fin (4691249611844267 / 140737488355328)"
  by (simp add: double_eval)

lemma toDouble_two_thirds:
  "toDouble (2 / 3) = Fin (6004799503160661 / 9007199254740992)"
  by (simp add: double_eval)

text \<open>
  No text of fewer digits is read back as the double, one lemma for each length: 17
  digits for \<open>100 / 3\<close>, 16 digits for \<open>2 / 3\<close>.
\<close>

lemma third_of_hundred_digits_1: "digitsOfLength (4691249611844267 / 140737488355328) 2 1 = None"
proof -
  have "\<not> roundTrips (4691249611844267 / 140737488355328) 3 1"
    by (simp add: roundTrips_def scale10_def double_eval)
  moreover have "\<not> roundTrips (4691249611844267 / 140737488355328) 4 1"
    by (simp add: roundTrips_def scale10_def double_eval)
  ultimately show ?thesis
    by (simp add: digitsOfLength_def scale10_def Let_def)
qed

lemma third_of_hundred_digits_2: "digitsOfLength (4691249611844267 / 140737488355328) 2 2 = None"
proof -
  have "\<not> roundTrips (4691249611844267 / 140737488355328) 33 0"
    by (simp add: roundTrips_def scale10_def double_eval)
  moreover have "\<not> roundTrips (4691249611844267 / 140737488355328) 34 0"
    by (simp add: roundTrips_def scale10_def double_eval)
  ultimately show ?thesis
    by (simp add: digitsOfLength_def scale10_def Let_def)
qed

lemma third_of_hundred_digits_3: "digitsOfLength (4691249611844267 / 140737488355328) 2 3 = None"
proof -
  have "\<not> roundTrips (4691249611844267 / 140737488355328) 333 (- 1)"
    by (simp add: roundTrips_def scale10_def double_eval)
  moreover have "\<not> roundTrips (4691249611844267 / 140737488355328) 334 (- 1)"
    by (simp add: roundTrips_def scale10_def double_eval)
  ultimately show ?thesis
    by (simp add: digitsOfLength_def scale10_def Let_def)
qed

lemma third_of_hundred_digits_4: "digitsOfLength (4691249611844267 / 140737488355328) 2 4 = None"
proof -
  have "\<not> roundTrips (4691249611844267 / 140737488355328) 3333 (- 2)"
    by (simp add: roundTrips_def scale10_def double_eval)
  moreover have "\<not> roundTrips (4691249611844267 / 140737488355328) 3334 (- 2)"
    by (simp add: roundTrips_def scale10_def double_eval)
  ultimately show ?thesis
    by (simp add: digitsOfLength_def scale10_def Let_def)
qed

lemma third_of_hundred_digits_5: "digitsOfLength (4691249611844267 / 140737488355328) 2 5 = None"
proof -
  have "\<not> roundTrips (4691249611844267 / 140737488355328) 33333 (- 3)"
    by (simp add: roundTrips_def scale10_def double_eval)
  moreover have "\<not> roundTrips (4691249611844267 / 140737488355328) 33334 (- 3)"
    by (simp add: roundTrips_def scale10_def double_eval)
  ultimately show ?thesis
    by (simp add: digitsOfLength_def scale10_def Let_def)
qed

lemma third_of_hundred_digits_6: "digitsOfLength (4691249611844267 / 140737488355328) 2 6 = None"
proof -
  have "\<not> roundTrips (4691249611844267 / 140737488355328) 333333 (- 4)"
    by (simp add: roundTrips_def scale10_def double_eval)
  moreover have "\<not> roundTrips (4691249611844267 / 140737488355328) 333334 (- 4)"
    by (simp add: roundTrips_def scale10_def double_eval)
  ultimately show ?thesis
    by (simp add: digitsOfLength_def scale10_def Let_def)
qed

lemma third_of_hundred_digits_7: "digitsOfLength (4691249611844267 / 140737488355328) 2 7 = None"
proof -
  have "\<not> roundTrips (4691249611844267 / 140737488355328) 3333333 (- 5)"
    by (simp add: roundTrips_def scale10_def double_eval)
  moreover have "\<not> roundTrips (4691249611844267 / 140737488355328) 3333334 (- 5)"
    by (simp add: roundTrips_def scale10_def double_eval)
  ultimately show ?thesis
    by (simp add: digitsOfLength_def scale10_def Let_def)
qed

lemma third_of_hundred_digits_8: "digitsOfLength (4691249611844267 / 140737488355328) 2 8 = None"
proof -
  have "\<not> roundTrips (4691249611844267 / 140737488355328) 33333333 (- 6)"
    by (simp add: roundTrips_def scale10_def double_eval)
  moreover have "\<not> roundTrips (4691249611844267 / 140737488355328) 33333334 (- 6)"
    by (simp add: roundTrips_def scale10_def double_eval)
  ultimately show ?thesis
    by (simp add: digitsOfLength_def scale10_def Let_def)
qed

lemma third_of_hundred_digits_9: "digitsOfLength (4691249611844267 / 140737488355328) 2 9 = None"
proof -
  have "\<not> roundTrips (4691249611844267 / 140737488355328) 333333333 (- 7)"
    by (simp add: roundTrips_def scale10_def double_eval)
  moreover have "\<not> roundTrips (4691249611844267 / 140737488355328) 333333334 (- 7)"
    by (simp add: roundTrips_def scale10_def double_eval)
  ultimately show ?thesis
    by (simp add: digitsOfLength_def scale10_def Let_def)
qed

lemma third_of_hundred_digits_10: "digitsOfLength (4691249611844267 / 140737488355328) 2 10 = None"
proof -
  have "\<not> roundTrips (4691249611844267 / 140737488355328) 3333333333 (- 8)"
    by (simp add: roundTrips_def scale10_def double_eval)
  moreover have "\<not> roundTrips (4691249611844267 / 140737488355328) 3333333334 (- 8)"
    by (simp add: roundTrips_def scale10_def double_eval)
  ultimately show ?thesis
    by (simp add: digitsOfLength_def scale10_def Let_def)
qed

lemma third_of_hundred_digits_11: "digitsOfLength (4691249611844267 / 140737488355328) 2 11 = None"
proof -
  have "\<not> roundTrips (4691249611844267 / 140737488355328) 33333333333 (- 9)"
    by (simp add: roundTrips_def scale10_def double_eval)
  moreover have "\<not> roundTrips (4691249611844267 / 140737488355328) 33333333334 (- 9)"
    by (simp add: roundTrips_def scale10_def double_eval)
  ultimately show ?thesis
    by (simp add: digitsOfLength_def scale10_def Let_def)
qed

lemma third_of_hundred_digits_12: "digitsOfLength (4691249611844267 / 140737488355328) 2 12 = None"
proof -
  have "\<not> roundTrips (4691249611844267 / 140737488355328) 333333333333 (- 10)"
    by (simp add: roundTrips_def scale10_def double_eval)
  moreover have "\<not> roundTrips (4691249611844267 / 140737488355328) 333333333334 (- 10)"
    by (simp add: roundTrips_def scale10_def double_eval)
  ultimately show ?thesis
    by (simp add: digitsOfLength_def scale10_def Let_def)
qed

lemma third_of_hundred_digits_13: "digitsOfLength (4691249611844267 / 140737488355328) 2 13 = None"
proof -
  have "\<not> roundTrips (4691249611844267 / 140737488355328) 3333333333333 (- 11)"
    by (simp add: roundTrips_def scale10_def double_eval)
  moreover have "\<not> roundTrips (4691249611844267 / 140737488355328) 3333333333334 (- 11)"
    by (simp add: roundTrips_def scale10_def double_eval)
  ultimately show ?thesis
    by (simp add: digitsOfLength_def scale10_def Let_def)
qed

lemma third_of_hundred_digits_14: "digitsOfLength (4691249611844267 / 140737488355328) 2 14 = None"
proof -
  have "\<not> roundTrips (4691249611844267 / 140737488355328) 33333333333333 (- 12)"
    by (simp add: roundTrips_def scale10_def double_eval)
  moreover have "\<not> roundTrips (4691249611844267 / 140737488355328) 33333333333334 (- 12)"
    by (simp add: roundTrips_def scale10_def double_eval)
  ultimately show ?thesis
    by (simp add: digitsOfLength_def scale10_def Let_def)
qed

lemma third_of_hundred_digits_15: "digitsOfLength (4691249611844267 / 140737488355328) 2 15 = None"
proof -
  have "\<not> roundTrips (4691249611844267 / 140737488355328) 333333333333333 (- 13)"
    by (simp add: roundTrips_def scale10_def double_eval)
  moreover have "\<not> roundTrips (4691249611844267 / 140737488355328) 333333333333334 (- 13)"
    by (simp add: roundTrips_def scale10_def double_eval)
  ultimately show ?thesis
    by (simp add: digitsOfLength_def scale10_def Let_def)
qed

lemma third_of_hundred_digits_16: "digitsOfLength (4691249611844267 / 140737488355328) 2 16 = None"
proof -
  have "\<not> roundTrips (4691249611844267 / 140737488355328) 3333333333333333 (- 14)"
    by (simp add: roundTrips_def scale10_def double_eval)
  moreover have "\<not> roundTrips (4691249611844267 / 140737488355328) 3333333333333334 (- 14)"
    by (simp add: roundTrips_def scale10_def double_eval)
  ultimately show ?thesis
    by (simp add: digitsOfLength_def scale10_def Let_def)
qed

lemma third_of_hundred_digits_17: "digitsOfLength (4691249611844267 / 140737488355328) 2 17 = Some (33333333333333336, 2)"
proof -
  have "roundTrips (4691249611844267 / 140737488355328) 33333333333333335 (- 15)"
    by (simp add: roundTrips_def scale10_def double_eval)
  moreover have "roundTrips (4691249611844267 / 140737488355328) 33333333333333336 (- 15)"
    by (simp add: roundTrips_def scale10_def double_eval)
  ultimately show ?thesis
    by (simp add: digitsOfLength_def scale10_def Let_def)
qed

lemmas third_of_hundred_digits = third_of_hundred_digits_1 third_of_hundred_digits_2
  third_of_hundred_digits_3 third_of_hundred_digits_4 third_of_hundred_digits_5
  third_of_hundred_digits_6 third_of_hundred_digits_7 third_of_hundred_digits_8
  third_of_hundred_digits_9 third_of_hundred_digits_10 third_of_hundred_digits_11
  third_of_hundred_digits_12 third_of_hundred_digits_13 third_of_hundred_digits_14
  third_of_hundred_digits_15 third_of_hundred_digits_16 third_of_hundred_digits_17

lemma third_of_hundred_shortest: "shortestDigits (4691249611844267 / 140737488355328) = Some (33333333333333336, 2)"
proof -
  have "exponentIn 10 (4691249611844267 / 140737488355328) + 1 = 2"
    by (simp add: exponentIn.simps)
  then show ?thesis
    by (simp add: shortestDigits_def third_of_hundred_digits del: One_nat_def)
qed

lemma third_of_hundred_text: "jsDigits (4691249611844267 / 140737488355328) = ''33.333333333333336''"
  by (simp add: jsDigits_def third_of_hundred_shortest formatDigits_def digits.simps Let_def)

lemma two_thirds_digits_1: "digitsOfLength (6004799503160661 / 9007199254740992) 0 1 = None"
proof -
  have "\<not> roundTrips (6004799503160661 / 9007199254740992) 6 (- 1)"
    by (simp add: roundTrips_def scale10_def double_eval)
  moreover have "\<not> roundTrips (6004799503160661 / 9007199254740992) 7 (- 1)"
    by (simp add: roundTrips_def scale10_def double_eval)
  ultimately show ?thesis
    by (simp add: digitsOfLength_def scale10_def Let_def)
qed

lemma two_thirds_digits_2: "digitsOfLength (6004799503160661 / 9007199254740992) 0 2 = None"
proof -
  have "\<not> roundTrips (6004799503160661 / 9007199254740992) 66 (- 2)"
    by (simp add: roundTrips_def scale10_def double_eval)
  moreover have "\<not> roundTrips (6004799503160661 / 9007199254740992) 67 (- 2)"
    by (simp add: roundTrips_def scale10_def double_eval)
  ultimately show ?thesis
    by (simp add: digitsOfLength_def scale10_def Let_def)
qed

lemma two_thirds_digits_3: "digitsOfLength (6004799503160661 / 9007199254740992) 0 3 = None"
proof -
  have "\<not> roundTrips (6004799503160661 / 9007199254740992) 666 (- 3)"
    by (simp add: roundTrips_def scale10_def double_eval)
  moreover have "\<not> roundTrips (6004799503160661 / 9007199254740992) 667 (- 3)"
    by (simp add: roundTrips_def scale10_def double_eval)
  ultimately show ?thesis
    by (simp add: digitsOfLength_def scale10_def Let_def)
qed

lemma two_thirds_digits_4: "digitsOfLength (6004799503160661 / 9007199254740992) 0 4 = None"
proof -
  have "\<not> roundTrips (6004799503160661 / 9007199254740992) 6666 (- 4)"
    by (simp add: roundTrips_def scale10_def double_eval)
  moreover have "\<not> roundTrips (6004799503160661 / 9007199254740992) 6667 (- 4)"
    by (simp add: roundTrips_def scale10_def double_eval)
  ultimately show ?thesis
    by (simp add: digitsOfLength_def scale10_def Let_def)
qed

lemma two_thirds_digits_5: "digitsOfLength (6004799503160661 / 9007199254740992) 0 5 = None"
proof -
  have "\<not> roundTrips (6004799503160661 / 9007199254740992) 66666 (- 5)"
    by (simp add: roundTrips_def scale10_def double_eval)
  moreover have "\<not> roundTrips (6004799503160661 / 9007199254740992) 66667 (- 5)"
    by (simp add: roundTrips_def scale10_def double_eval)
  ultimately show ?thesis
    by (simp add: digitsOfLength_def scale10_def Let_def)
qed

lemma two_thirds_digits_6: "digitsOfLength (6004799503160661 / 9007199254740992) 0 6 = None"
proof -
  have "\<not> roundTrips (6004799503160661 / 9007199254740992) 666666 (- 6)"
    by (simp add: roundTrips_def scale10_def double_eval)
  moreover have "\<not> roundTrips (6004799503160661 / 9007199254740992) 666667 (- 6)"
    by (simp add: roundTrips_def scale10_def double_eval)
  ultimately show ?thesis
    by (simp add: digitsOfLength_def scale10_def Let_def)
qed

lemma two_thirds_digits_7: "digitsOfLength (6004799503160661 / 9007199254740992) 0 7 = None"
proof -
  have "\<not> roundTrips (6004799503160661 / 9007199254740992) 6666666 (- 7)"
    by (simp add: roundTrips_def scale10_def double_eval)
  moreover have "\<not> roundTrips (6004799503160661 / 9007199254740992) 6666667 (- 7)"
    by (simp add: roundTrips_def scale10_def double_eval)
  ultimately show ?thesis
    by (simp add: digitsOfLength_def scale10_def Let_def)
qed

lemma two_thirds_digits_8: "digitsOfLength (6004799503160661 / 9007199254740992) 0 8 = None"
proof -
  have "\<not> roundTrips (6004799503160661 / 9007199254740992) 66666666 (- 8)"
    by (simp add: roundTrips_def scale10_def double_eval)
  moreover have "\<not> roundTrips (6004799503160661 / 9007199254740992) 66666667 (- 8)"
    by (simp add: roundTrips_def scale10_def double_eval)
  ultimately show ?thesis
    by (simp add: digitsOfLength_def scale10_def Let_def)
qed

lemma two_thirds_digits_9: "digitsOfLength (6004799503160661 / 9007199254740992) 0 9 = None"
proof -
  have "\<not> roundTrips (6004799503160661 / 9007199254740992) 666666666 (- 9)"
    by (simp add: roundTrips_def scale10_def double_eval)
  moreover have "\<not> roundTrips (6004799503160661 / 9007199254740992) 666666667 (- 9)"
    by (simp add: roundTrips_def scale10_def double_eval)
  ultimately show ?thesis
    by (simp add: digitsOfLength_def scale10_def Let_def)
qed

lemma two_thirds_digits_10: "digitsOfLength (6004799503160661 / 9007199254740992) 0 10 = None"
proof -
  have "\<not> roundTrips (6004799503160661 / 9007199254740992) 6666666666 (- 10)"
    by (simp add: roundTrips_def scale10_def double_eval)
  moreover have "\<not> roundTrips (6004799503160661 / 9007199254740992) 6666666667 (- 10)"
    by (simp add: roundTrips_def scale10_def double_eval)
  ultimately show ?thesis
    by (simp add: digitsOfLength_def scale10_def Let_def)
qed

lemma two_thirds_digits_11: "digitsOfLength (6004799503160661 / 9007199254740992) 0 11 = None"
proof -
  have "\<not> roundTrips (6004799503160661 / 9007199254740992) 66666666666 (- 11)"
    by (simp add: roundTrips_def scale10_def double_eval)
  moreover have "\<not> roundTrips (6004799503160661 / 9007199254740992) 66666666667 (- 11)"
    by (simp add: roundTrips_def scale10_def double_eval)
  ultimately show ?thesis
    by (simp add: digitsOfLength_def scale10_def Let_def)
qed

lemma two_thirds_digits_12: "digitsOfLength (6004799503160661 / 9007199254740992) 0 12 = None"
proof -
  have "\<not> roundTrips (6004799503160661 / 9007199254740992) 666666666666 (- 12)"
    by (simp add: roundTrips_def scale10_def double_eval)
  moreover have "\<not> roundTrips (6004799503160661 / 9007199254740992) 666666666667 (- 12)"
    by (simp add: roundTrips_def scale10_def double_eval)
  ultimately show ?thesis
    by (simp add: digitsOfLength_def scale10_def Let_def)
qed

lemma two_thirds_digits_13: "digitsOfLength (6004799503160661 / 9007199254740992) 0 13 = None"
proof -
  have "\<not> roundTrips (6004799503160661 / 9007199254740992) 6666666666666 (- 13)"
    by (simp add: roundTrips_def scale10_def double_eval)
  moreover have "\<not> roundTrips (6004799503160661 / 9007199254740992) 6666666666667 (- 13)"
    by (simp add: roundTrips_def scale10_def double_eval)
  ultimately show ?thesis
    by (simp add: digitsOfLength_def scale10_def Let_def)
qed

lemma two_thirds_digits_14: "digitsOfLength (6004799503160661 / 9007199254740992) 0 14 = None"
proof -
  have "\<not> roundTrips (6004799503160661 / 9007199254740992) 66666666666666 (- 14)"
    by (simp add: roundTrips_def scale10_def double_eval)
  moreover have "\<not> roundTrips (6004799503160661 / 9007199254740992) 66666666666667 (- 14)"
    by (simp add: roundTrips_def scale10_def double_eval)
  ultimately show ?thesis
    by (simp add: digitsOfLength_def scale10_def Let_def)
qed

lemma two_thirds_digits_15: "digitsOfLength (6004799503160661 / 9007199254740992) 0 15 = None"
proof -
  have "\<not> roundTrips (6004799503160661 / 9007199254740992) 666666666666666 (- 15)"
    by (simp add: roundTrips_def scale10_def double_eval)
  moreover have "\<not> roundTrips (6004799503160661 / 9007199254740992) 666666666666667 (- 15)"
    by (simp add: roundTrips_def scale10_def double_eval)
  ultimately show ?thesis
    by (simp add: digitsOfLength_def scale10_def Let_def)
qed

lemma two_thirds_digits_16: "digitsOfLength (6004799503160661 / 9007199254740992) 0 16 = Some (6666666666666666, 0)"
proof -
  have "roundTrips (6004799503160661 / 9007199254740992) 6666666666666666 (- 16)"
    by (simp add: roundTrips_def scale10_def double_eval)
  moreover have "\<not> roundTrips (6004799503160661 / 9007199254740992) 6666666666666667 (- 16)"
    by (simp add: roundTrips_def scale10_def double_eval)
  ultimately show ?thesis
    by (simp add: digitsOfLength_def scale10_def Let_def)
qed

lemmas two_thirds_digits = two_thirds_digits_1 two_thirds_digits_2 two_thirds_digits_3
  two_thirds_digits_4 two_thirds_digits_5 two_thirds_digits_6 two_thirds_digits_7
  two_thirds_digits_8 two_thirds_digits_9 two_thirds_digits_10 two_thirds_digits_11
  two_thirds_digits_12 two_thirds_digits_13 two_thirds_digits_14 two_thirds_digits_15
  two_thirds_digits_16

lemma two_thirds_shortest: "shortestDigits (6004799503160661 / 9007199254740992) = Some (6666666666666666, 0)"
proof -
  have "exponentIn 10 (6004799503160661 / 9007199254740992) + 1 = 0"
    by (simp add: exponentIn.simps)
  then show ?thesis
    by (simp add: shortestDigits_def two_thirds_digits del: One_nat_def)
qed

lemma two_thirds_text: "jsDigits (6004799503160661 / 9007199254740992) = ''0.6666666666666666''"
  by (simp add: jsDigits_def two_thirds_shortest formatDigits_def digits.simps Let_def)

subsection \<open>Evaluation of the patterns and of the number conversion\<close>

lemmas regex_eval = matches.simps cssCalcAllowedValue_def Opt_def Some1_def digit_def letters_def

lemmas units_eval = normalizeUnits_def matchesAtEnd_def matches.simps Some1_def letters_def

lemma normalizeUnits_100: "normalizeUnits ''100'' = ''100px''"
  by (simp add: units_eval)

lemma normalizeUnits_100bang: "normalizeUnits ''100!!'' = ''100!!px''"
  by (simp add: units_eval)

lemma normalizeUnits_4px: "normalizeUnits ''4px'' = ''4px''"
  by (simp add: units_eval)

lemma normalizeUnits_100px: "normalizeUnits ''100px'' = ''100px''"
  by (simp add: units_eval)

lemma allowed_100px: "matches cssCalcAllowedValue ''100px''"
  by (simp add: regex_eval)

lemma numberToString_small [simp]:
  "numberToString dec (Fin 0) = ''0''"
  "numberToString dec (Fin 1) = ''1''"
  "numberToString dec (Fin 2) = ''2''"
  "numberToString dec (Fin 3) = ''3''"
  "numberToString dec (Fin 4) = ''4''"
  "numberToString dec (Fin 10) = ''10''"
  "numberToString dec (Fin 100) = ''100''"
  by (simp_all add: numberToString_def isWholeNumber_def integerToString_def digits.simps)

lemma numberToString_doubles:
  "numberToString jsDigits (Fin (4691249611844267 / 140737488355328)) = ''33.333333333333336''"
  "numberToString jsDigits (Fin (6004799503160661 / 9007199254740992)) = ''0.6666666666666666''"
  by (simp_all add: numberToString_def isWholeNumber_def third_of_hundred_text two_thirds_text)

subsection \<open>The fixed row height is checked by \<^verbatim>\<open>init\<close>\<close>

text \<open>
  C1, as stated, fails: the value \<^verbatim>\<open>100!!\<close> does not pass the check once normalized,
  and yet the constructor returns a styler that holds it, unchanged and unchecked.
\<close>

theorem FixedTileStyler_new_unchecked:
  "\<not> matches cssCalcAllowedValue (normalizeUnits ''100!!'') \<and>
   FixedTileStyler_new ''100!!'' =
     Inr \<lparr>u_gutterSize = None, u_rows = Fin 0, u_rowspan = Fin 0, u_cols = None,
          u_direction = None, fixedRowHeight = ''100!!''\<rparr>"
  by (simp add: normalizeUnits_100bang FixedTileStyler_new_def regex_eval)

text \<open>
  C1, amended: the constructor of the fixed styler accepts every value and stores it as
  it is. It is \<^verbatim>\<open>init\<close> that normalizes the value and checks it: for every value that
  fails the check after normalization \<^verbatim>\<open>init\<close> fails with \<open>InvalidDimension\<close>, and for
  every other value it returns the styler with the normalized value.
\<close>

theorem FixedTileStyler_init_checks_dimension:
  "\<exists>this. FixedTileStyler_new v = Inr this \<and> fixedRowHeight this = v \<and>
     (\<not> matches cssCalcAllowedValue (normalizeUnits v) \<longrightarrow>
        FixedTileStyler_init this gutterSize tracker cols direction =
          Inl (InvalidDimension
                 (''Invalid value '' @ dquote @ normalizeUnits v @ dquote
                    @ '' set as rowHeight.''))) \<and>
     (matches cssCalcAllowedValue (normalizeUnits v) \<longrightarrow>
        (\<exists>this'. FixedTileStyler_init this gutterSize tracker cols direction = Inr this' \<and>
           fixedRowHeight this' = normalizeUnits v))"
  by (simp add: FixedTileStyler_new_def FixedTileStyler_init_def TileStyler_init_def Let_def)

text \<open>
  The two values of the specification: \<^verbatim>\<open>100!!\<close> is constructed and fails in
  \<^verbatim>\<open>init\<close>, \<^verbatim>\<open>100\<close> becomes \<^verbatim>\<open>100px\<close> and passes.
\<close>

theorem FixedTileStyler_init_checks_dimension_witness:
  "(\<exists>this. FixedTileStyler_new ''100!!'' = Inr this \<and>
      FixedTileStyler_init this ''4px'' twoRows (Fin 3) ''ltr'' =
        Inl (InvalidDimension
               (''Invalid value '' @ dquote @ ''100!!px'' @ dquote @ '' set as rowHeight.''))) \<and>
   (\<exists>this this'. FixedTileStyler_new ''100'' = Inr this \<and>
      FixedTileStyler_init this ''4px'' twoRows (Fin 3) ''ltr'' = Inr this' \<and>
      fixedRowHeight this' = ''100px'')"
proof -
  have bad: "\<not> matches cssCalcAllowedValue (normalizeUnits ''100!!'')"
    by (simp add: normalizeUnits_100bang regex_eval)
  have good: "matches cssCalcAllowedValue (normalizeUnits ''100'')"
    by (simp add: normalizeUnits_100 regex_eval)
  from FixedTileStyler_init_checks_dimension [of "''100!!''" "''4px''" twoRows "Fin 3" "''ltr''"]
       bad
  have a: "\<exists>this. FixedTileStyler_new ''100!!'' = Inr this \<and>
      FixedTileStyler_init this ''4px'' twoRows (Fin 3) ''ltr'' =
        Inl (InvalidDimension
               (''Invalid value '' @ dquote @ ''100!!px'' @ dquote @ '' set as rowHeight.''))"
    by (auto simp: normalizeUnits_100bang)
  from FixedTileStyler_init_checks_dimension [of "''100''" "''4px''" twoRows "Fin 3" "''ltr''"]
       good
  have b: "\<exists>this this'. FixedTileStyler_new ''100'' = Inr this \<and>
      FixedTileStyler_init this ''4px'' twoRows (Fin 3) ''ltr'' = Inr this' \<and>
      fixedRowHeight this' = ''100px''"
    by (auto simp: normalizeUnits_100)
  from a b show ?thesis by blast
qed

subsection \<open>The ratio is only checked for its number of parts\<close>

lemma length_splitOn: "length (splitOn sep s) = Suc (count_list s sep)"
  by (induction s) (auto split: list.splits)

text \<open>
  C2, as stated, fails: \<^verbatim>\<open>a:b\<close> has two parts of which neither is a number, and the
  constructor returns a styler all the same, with the ratio NaN.
\<close>

theorem RatioTileStyler_new_nonnumeric:
  "splitOn CHR '':'' ''a:b'' = [''a'', ''b''] \<and> parseFloat ''a'' = NaN \<and>
   parseFloat ''b'' = NaN \<and>
   RatioTileStyler_new ''a:b'' =
     Inr \<lparr>u_gutterSize = None, u_rows = Fin 0, u_rowspan = Fin 0, u_cols = None,
          u_direction = None, rowHeightRatio = Some NaN, baseTileHeight = None\<rparr>"
  by (simp add: RatioTileStyler_new_def RatioTileStyler_parseRatio_def parseFloat_def
        parseUnsigned_def isWhiteSpace_def isDigit_def)

text \<open>
  C2, amended: the constructor of the ratio styler fails with \<open>InvalidRatio\<close> if and only
  if the string does not split into exactly two parts at its colons, that is, if and only
  if it does not hold exactly one colon; in every other case it returns a styler. Whether
  the two parts are numbers is not checked.
\<close>

theorem RatioTileStyler_new_fails_iff:
  "(RatioTileStyler_new v =
      Inl (InvalidRatio
             (''mat-grid-list: invalid ratio given for row-height: '' @ dquote @ v @ dquote)))
     = (length (splitOn CHR '':'' v) \<noteq> 2) \<and>
   (\<exists>this. RatioTileStyler_new v = Inr this) = (length (splitOn CHR '':'' v) = 2) \<and>
   (length (splitOn CHR '':'' v) = 2) = (count_list v CHR '':'' = 1)"
  by (auto simp add: RatioTileStyler_new_def RatioTileStyler_parseRatio_def Let_def
        length_splitOn)

text \<open>The value of the specification: \<^verbatim>\<open>3:1:2\<close> has three parts and is refused.\<close>

theorem RatioTileStyler_new_fails_iff_witness:
  "RatioTileStyler_new ''3:1:2'' =
     Inl (InvalidRatio
            (''mat-grid-list: invalid ratio given for row-height: '' @ dquote @ ''3:1:2''
               @ dquote))"
  using RatioTileStyler_new_fails_iff [of "''3:1:2''"] by simp

subsection \<open>Reset\<close>

lemma clearTiles_twice: "clearTiles p q (clearTiles p q ts) = clearTiles p q ts"
  by (induction ts) (auto simp: clearTiles_def tile_setStyle_def)

lemma FixedTileStyler_reset_twice:
  "FixedTileStyler_reset l0 = Inr l1 \<Longrightarrow> FixedTileStyler_reset l1 = Inr l1"
  by (auto simp add: FixedTileStyler_reset_def list_setListStyle_def Let_def clearTiles_twice
        split: option.splits)

lemma RatioTileStyler_reset_twice:
  "RatioTileStyler_reset l0 = Inr l1 \<Longrightarrow> RatioTileStyler_reset l1 = Inr l1"
  by (auto simp add: RatioTileStyler_reset_def list_setListStyle_def Let_def clearTiles_twice
        split: option.splits)

lemma FitTileStyler_reset_twice:
  "FitTileStyler_reset l0 = Inr l1 \<Longrightarrow> FitTileStyler_reset l1 = Inr l1"
  by (auto simp add: FitTileStyler_reset_def clearTiles_twice split: option.splits)

lemma reset_no_tiles:
  "u_tiles list = Some [] \<Longrightarrow>
     FixedTileStyler_reset list =
       Inr (list\<lparr>listStyle := (listStyle list)(''height'' := None)\<rparr>)"
  "u_tiles list = Some [] \<Longrightarrow>
     RatioTileStyler_reset list =
       Inr (list\<lparr>listStyle := (listStyle list)(''paddingBottom'' := None)\<rparr>)"
  "u_tiles list = Some [] \<Longrightarrow> FitTileStyler_reset list = Inr list"
  by (simp_all add: FixedTileStyler_reset_def RatioTileStyler_reset_def FitTileStyler_reset_def
        list_setListStyle_def Let_def clearTiles_def)

text \<open>
  The property that each policy sets on the container is the one its
  \<^verbatim>\<open>getComputedHeight\<close> names: \<^verbatim>\<open>height\<close> for the fixed styler, \<^verbatim>\<open>paddingBottom\<close> for
  the ratio styler, and none for the fit styler, which inherits the method of the base
  class.
\<close>

lemma container_property:
  "map_option fst (FixedTileStyler_getComputedHeight dec fixed) = Some ''height''"
  "map_option fst (RatioTileStyler_getComputedHeight dec ratio) = Some ''paddingBottom''"
  "TileStyler_getComputedHeight fit = None"
  by (simp_all add: FixedTileStyler_getComputedHeight_def RatioTileStyler_getComputedHeight_def
        TileStyler_getComputedHeight_def)

text \<open>
  On a grid list whose collection of tiles is empty, the \<^verbatim>\<open>reset\<close> of each of the three
  policies returns without an error, and the container's property of the policy is unset
  afterwards (the fit styler has none and leaves the container as it is). Every
  \<^verbatim>\<open>reset\<close> that returns is idempotent, whatever the tiles: a second call on the result
  of a first one returns that result unchanged.
\<close>

lemma reset_empty_collection:
  "(u_tiles list = Some [] \<longrightarrow>
      FixedTileStyler_reset list =
        Inr (list\<lparr>listStyle := (listStyle list)(''height'' := None)\<rparr>) \<and>
      RatioTileStyler_reset list =
        Inr (list\<lparr>listStyle := (listStyle list)(''paddingBottom'' := None)\<rparr>) \<and>
      FitTileStyler_reset list = Inr list) \<and>
   (FixedTileStyler_reset l0 = Inr l1 \<longrightarrow> FixedTileStyler_reset l1 = Inr l1) \<and>
   (RatioTileStyler_reset l0 = Inr l2 \<longrightarrow> RatioTileStyler_reset l2 = Inr l2) \<and>
   (FitTileStyler_reset l0 = Inr l3 \<longrightarrow> FitTileStyler_reset l3 = Inr l3)"
  using reset_no_tiles [of list] FixedTileStyler_reset_twice [of l0 l1]
    RatioTileStyler_reset_twice [of l0 l2] FitTileStyler_reset_twice [of l0 l3]
  by blast

lemma reset_emptyGrid:
  "FixedTileStyler_reset emptyGrid =
     Inr \<lparr>listStyle = [''paddingBottom'' \<mapsto> ''50%''], u_tiles = Some []\<rparr>"
  "RatioTileStyler_reset emptyGrid =
     Inr \<lparr>listStyle = [''height'' \<mapsto> ''208px''], u_tiles = Some []\<rparr>"
  "FitTileStyler_reset emptyGrid = Inr emptyGrid"
  by (simp_all add: FixedTileStyler_reset_def RatioTileStyler_reset_def FitTileStyler_reset_def
        list_setListStyle_def Let_def clearTiles_def emptyGrid_def fun_eq_iff)

text \<open>
  Before the tiles of a grid list have been collected, its field \<^verbatim>\<open>_tiles\<close> is
  \<^verbatim>\<open>undefined\<close>: no tile is registered, and there is no collection either. The fixed
  and the fit styler test for that before they loop; the ratio styler does not.
\<close>

lemma reset_tiles_undefined:
  "u_tiles list = None \<Longrightarrow>
     FixedTileStyler_reset list =
       Inr (list\<lparr>listStyle := (listStyle list)(''height'' := None)\<rparr>)"
  "u_tiles list = None \<Longrightarrow> FitTileStyler_reset list = Inr list"
  "u_tiles list = None \<Longrightarrow> RatioTileStyler_reset list = Inl TypeError"
  by (simp_all add: FixedTileStyler_reset_def RatioTileStyler_reset_def FitTileStyler_reset_def
        list_setListStyle_def Let_def)

text \<open>
  C3: \<^verbatim>\<open>reset\<close> is to return, for every policy, on a grid list on which no tile is
  registered, and to clear the container's property. On the grid list whose tiles have
  not been collected yet, the fixed styler returns with \<^verbatim>\<open>height\<close> cleared and the fit
  styler returns, but the ratio styler fails with a \<open>TypeError\<close>: it calls
  \<^verbatim>\<open>forEach\<close> on \<^verbatim>\<open>undefined\<close>, without the test that the other two make.
\<close>

theorem RatioTileStyler_reset_throws:
  "RatioTileStyler_reset uncollectedGrid = Inl TypeError \<and>
   FixedTileStyler_reset uncollectedGrid =
     Inr \<lparr>listStyle = [''paddingBottom'' \<mapsto> ''50%''], u_tiles = None\<rparr> \<and>
   FitTileStyler_reset uncollectedGrid = Inr uncollectedGrid"
  by (simp add: FixedTileStyler_reset_def RatioTileStyler_reset_def FitTileStyler_reset_def
        list_setListStyle_def Let_def uncollectedGrid_def fun_eq_iff)

subsection \<open>The fit styler with no row\<close>

text \<open>
  C4: the row method of the fit styler has no failing branch, so it returns for every
  input. With a row count of 0 and a total row span of 0 both divisions go through:
  \<open>100 / 0\<close> is \<^verbatim>\<open>Infinity\<close> and \<open>(0 - 1) / 0\<close> is \<^verbatim>\<open>-Infinity\<close>, and the tile gets
  a \<^verbatim>\<open>height\<close> (and, off the first row, a \<^verbatim>\<open>top\<close>) written around the size
  \<^verbatim>\<open>(Infinity% - (gutter * -Infinity))\<close>, which is no length.
\<close>

theorem FitTileStyler_zero_rows:
  "u_rows this = Fin 0 \<Longrightarrow> u_rowspan this = Fin 0 \<Longrightarrow>
   FitTileStyler_setRowStyles dec this tile rowIndex percentWidth gutterWidth =
     (this,
      tile\<lparr>style := (style tile)
        (''top'' \<mapsto>
           (if rowIndex = Fin 0 then ''0''
            else ''calc(((Infinity% - ('' @ stringOrUndefined (u_gutterSize this)
                   @ '' * -Infinity)) + '' @ stringOrUndefined (u_gutterSize this) @ '') * ''
                   @ numberToString dec rowIndex @ '')''),
         ''height'' \<mapsto>
           ''calc(((Infinity% - ('' @ stringOrUndefined (u_gutterSize this)
             @ '' * -Infinity)) * '' @ numberToString dec (rowspan tile) @ '') + (''
             @ numberToString dec (jssub (rowspan tile) (Fin 1)) @ '' * ''
             @ stringOrUndefined (u_gutterSize this) @ ''))'')\<rparr>)"
  by (simp add: FitTileStyler_setRowStyles_def Let_def getBaseTileSize_def getTilePosition_def
        getTileSize_def calc_def tile_setStyle_def numberToString_def)

text \<open>A fit styler initialized by a coordinator with no row, and a tile of one cell in row 1.\<close>

theorem FitTileStyler_zero_rows_witness:
  "FitTileStyler_setRowStyles someDigits
     (TileStyler_init FitTileStyler_new ''4px'' noRows (Fin 3) ''ltr'') unitTile (Fin 1)
     (Fin (100 / 3)) (Fin (2 / 3)) =
     (TileStyler_init FitTileStyler_new ''4px'' noRows (Fin 3) ''ltr'',
      unitTile\<lparr>style :=
        [''top'' \<mapsto> ''calc(((Infinity% - (4px * -Infinity)) + 4px) * 1)'',
         ''height'' \<mapsto> ''calc(((Infinity% - (4px * -Infinity)) * 1) + (0 * 4px))'']\<rparr>)"
proof -
  let ?styler = "TileStyler_init FitTileStyler_new ''4px'' noRows (Fin 3) ''ltr''"
  have rows: "u_rows ?styler = Fin 0" and rowspan: "u_rowspan ?styler = Fin 0"
    by (simp_all add: TileStyler_init_def noRows_def)
  have gutter: "stringOrUndefined (u_gutterSize ?styler) = ''4px''"
    by (simp add: TileStyler_init_def stringOrUndefined_def normalizeUnits_4px)
  have tile: "style unitTile = Map.empty" "rowspan unitTile = Fin 1"
    by (simp_all add: unitTile_def)
  from FitTileStyler_zero_rows [OF rows rowspan, of someDigits unitTile "Fin 1" "Fin (100 / 3)"
         "Fin (2 / 3)"]
  show ?thesis
    by (simp add: gutter tile)
qed

subsection \<open>Position and extent\<close>

text \<open>
  C7: for every base size and every gutter, the position at offset 0 is the text
  \<^verbatim>\<open>0\<close>, and at every other offset it is
  \<^verbatim>\<open>calc((baseSize + gutterSize) * offset)\<close>.
\<close>

theorem getTilePosition_zero_or_calc:
  "getTilePosition dec this baseSize (Fin 0) = ''0'' \<and>
   (offset \<noteq> Fin 0 \<longrightarrow>
      getTilePosition dec this baseSize offset =
        ''calc(('' @ baseSize @ '' + '' @ stringOrUndefined (u_gutterSize this) @ '') * ''
          @ numberToString dec offset @ '')'')"
  by (simp add: getTilePosition_def calc_def)

text \<open>The third cell along an axis, after \<^verbatim>\<open>init\<close> with a gutter of \<^verbatim>\<open>4px\<close>.\<close>

theorem getTilePosition_zero_or_calc_witness:
  "getTilePosition someDigits (TileStyler_init TileStyler_new ''4px'' twoRows (Fin 3) ''ltr'')
     ''100px'' (Fin 2) = ''calc((100px + 4px) * 2)''"
  using getTilePosition_zero_or_calc
          [of someDigits "TileStyler_init TileStyler_new ''4px'' twoRows (Fin 3) ''ltr''"
              "''100px''" "Fin 2"]
  by (simp add: TileStyler_init_def stringOrUndefined_def normalizeUnits_4px)



subsection \<open>The gutter share of a cell\<close>

lemma gutterWidthFractionPerTile_value:
  assumes "1 \<le> c" and "c \<le> 9007199254740992" and "u_cols this = Some (Fin (of_nat c))"
  shows "gutterWidthFractionPerTile this =
           Fin (of_int (roundHalfEven ((of_nat c - 1) / of_nat c * 2 ^ 53)) / 2 ^ 53)"
proof (cases "c = 1")
  case True
  with assms(3) show ?thesis
    by (simp add: gutterWidthFractionPerTile_def toNumber_def roundHalfEven_def)
next
  case False
  with assms(1) have c2: "2 \<le> c" by simp
  then have c0: "(of_nat c :: rat) \<noteq> 0" and cpos: "(0 :: rat) < of_nat c" by simp_all
  from assms(1) have minus: "(of_nat c :: rat) - 1 = of_int (int c - 1)" by simp
  from assms(2) have "\<bar>int c - 1\<bar> \<le> 9007199254740992" by simp
  then have "toDouble (of_int (int c - 1)) = Fin (of_int (int c - 1))"
    by (rule toDouble_of_int)
  then have sub: "jssub (Fin (of_nat c)) (Fin 1) = Fin (of_nat c - 1)"
    by (simp only: jssub.simps minus)
  from c2 have "(2 :: rat) \<le> of_nat c" by simp
  then have "(of_nat c :: rat) \<le> 2 * (of_nat c - 1)" by simp
  with cpos have low: "1 / 2 \<le> (of_nat c - 1) / (of_nat c :: rat)"
    by (simp add: pos_le_divide_eq)
  from cpos have high: "(of_nat c - 1) / (of_nat c :: rat) < 1"
    by (simp add: pos_divide_less_eq)
  have "gutterWidthFractionPerTile this
          = jsdiv (jssub (Fin (of_nat c)) (Fin 1)) (Fin (of_nat c))"
    by (simp only: gutterWidthFractionPerTile_def toNumber_def assms(3) option.case)
  also have "\<dots> = toDouble ((of_nat c - 1) / of_nat c)"
    using c0 by (simp only: sub jsdiv.simps if_False)
  also have "\<dots> = Fin (of_int (roundHalfEven ((of_nat c - 1) / of_nat c * 2 ^ 53)) / 2 ^ 53)"
    using low high by (rule toDouble_fraction)
  finally show ?thesis .
qed

text \<open>
  C6, as stated, fails: with three columns the fraction that the styler holds is the
  double nearest to two thirds, which is not two thirds, and three times that double is
  not 2 (it is \<open>2 - 2 ^ - 53\<close>).
\<close>

theorem gutter_fraction_three_columns:
  "gutterWidthFractionPerTile threeColumns = Fin (6004799503160661 / 9007199254740992) \<and>
   6004799503160661 / 9007199254740992 \<noteq> (2 / 3 :: rat) \<and>
   sum_list (replicate 3 (6004799503160661 / 9007199254740992 :: rat)) \<noteq> 2"
  by (simp add: gutterWidthFractionPerTile_def toNumber_def threeColumns_def
        TileStyler_init_def toDouble_two_thirds sum_list_replicate)

text \<open>
  C6, amended: with \<open>c\<close> columns, \<open>c\<close> from 1 to \<open>2 ^ 53\<close>, the gutter fraction that
  \<^verbatim>\<open>setStyle\<close> computes is the double nearest to \<open>(c - 1) / c\<close>: the nearest multiple of
  \<open>2 ^ - 53\<close>, at most \<open>2 ^ - 54\<close> away from the quotient, and exactly 0 for one column.
  The fractions of the \<open>c\<close> cells of a row add up to \<open>c - 1\<close> gutters up to
  \<open>c * 2 ^ - 54\<close> of a gutter, not exactly. This is the fraction that \<^verbatim>\<open>setStyle\<close> hands
  to \<^verbatim>\<open>setColStyles\<close> and to the row method, and that \<^verbatim>\<open>setColStyles\<close> writes into the
  width of the tile.
\<close>

theorem gutter_fraction_rounded:
  assumes "1 \<le> c" and "c \<le> 9007199254740992" and "u_cols this = Some (Fin (of_nat c))"
  shows "\<exists>f. gutterWidthFractionPerTile this = Fin f \<and>
           f = of_int (roundHalfEven ((of_nat c - 1) / of_nat c * 2 ^ 53)) / 2 ^ 53 \<and>
           \<bar>f - (of_nat c - 1) / of_nat c\<bar> \<le> 1 / 2 ^ 54 \<and>
           (if c = 1 then f = 0 else 1 / 2 \<le> f) \<and>
           \<bar>sum_list (replicate c f) - (of_nat c - 1)\<bar> \<le> of_nat c / 2 ^ 54 \<and>
           setStyle rowStyles dec this tile rowIndex colIndex =
             rowStyles this
               (setColStyles dec this tile colIndex (percentWidthPerTile this) (Fin f))
               rowIndex (percentWidthPerTile this) (Fin f) \<and>
           style (setColStyles dec this tile colIndex (percentWidthPerTile this) (Fin f))
               ''width'' =
             Some (''calc((('' @ numberToString dec (percentWidthPerTile this) @ ''% - (''
                     @ stringOrUndefined (u_gutterSize this) @ '' * '' @ numberToString dec (Fin f)
                     @ '')) * '' @ numberToString dec (colspan tile) @ '') + (''
                     @ numberToString dec (jssub (colspan tile) (Fin 1)) @ '' * ''
                     @ stringOrUndefined (u_gutterSize this) @ ''))'')"
proof -
  let ?q = "(of_nat c - 1) / of_nat c :: rat"
  let ?f = "of_int (roundHalfEven (?q * 2 ^ 53)) / 2 ^ 53 :: rat"
  from assms(1) have cpos: "(0 :: rat) < of_nat c" by simp
  have val: "gutterWidthFractionPerTile this = Fin ?f"
    using assms by (rule gutterWidthFractionPerTile_value)
  have near: "\<bar>?f - ?q\<bar> \<le> 1 / 2 ^ 54" and edge: "if c = 1 then ?f = 0 else 1 / 2 \<le> ?f"
  proof -
    show "\<bar>?f - ?q\<bar> \<le> 1 / 2 ^ 54"
    proof (cases "c = 1")
      case True
      then show ?thesis by (simp add: roundHalfEven_def)
    next
      case False
      with assms(1) have "(2 :: rat) \<le> of_nat c" by simp
      then have "(of_nat c :: rat) \<le> 2 * (of_nat c - 1)" by simp
      with cpos have low: "1 / 2 \<le> ?q" by (simp add: pos_le_divide_eq)
      from cpos have high: "?q < 1" by (simp add: pos_divide_less_eq)
      from low high show ?thesis by (rule toDouble_fraction_error)
    qed
    show "if c = 1 then ?f = 0 else 1 / 2 \<le> ?f"
    proof (cases "c = 1")
      case True
      then show ?thesis by (simp add: roundHalfEven_def)
    next
      case False
      with assms(1) have "(2 :: rat) \<le> of_nat c" by simp
      then have "(of_nat c :: rat) \<le> 2 * (of_nat c - 1)" by simp
      with cpos have low: "1 / 2 \<le> ?q" by (simp add: pos_le_divide_eq)
      have half: "1 / 2 * 2 ^ 53 = (of_int 4503599627370496 :: rat)" by simp
      from low have "1 / 2 * 2 ^ 53 \<le> ?q * 2 ^ 53" by (rule mult_right_mono) simp
      then have "of_int 4503599627370496 \<le> ?q * 2 ^ 53" by (simp only: half)
      then have "4503599627370496 \<le> \<lfloor>?q * 2 ^ 53\<rfloor>" by (simp only: le_floor_iff)
      moreover have "\<lfloor>?q * 2 ^ 53\<rfloor> \<le> roundHalfEven (?q * 2 ^ 53)"
        by (simp add: roundHalfEven_def)
      ultimately have "(4503599627370496 :: int) \<le> roundHalfEven (?q * 2 ^ 53)"
        by (rule order_trans)
      then have "(4503599627370496 :: rat) \<le> of_int (roundHalfEven (?q * 2 ^ 53))"
        by (simp only: of_int_le_iff [symmetric, where ?'a = rat] of_int_numeral)
      then have "1 / 2 \<le> ?f" by simp
      with False show ?thesis by simp
    qed
  qed
  have "sum_list (replicate c ?f) - (of_nat c - 1) = of_nat c * (?f - ?q)"
    using cpos by (simp add: sum_list_replicate field_simps)
  then have "\<bar>sum_list (replicate c ?f) - (of_nat c - 1)\<bar> = of_nat c * \<bar>?f - ?q\<bar>"
    using cpos by (simp add: abs_mult)
  also have "\<dots> \<le> of_nat c * (1 / 2 ^ 54)"
    using near cpos by (intro mult_left_mono) simp_all
  finally have total: "\<bar>sum_list (replicate c ?f) - (of_nat c - 1)\<bar> \<le> of_nat c / 2 ^ 54"
    by simp
  have call: "setStyle rowStyles dec this tile rowIndex colIndex =
      rowStyles this (setColStyles dec this tile colIndex (percentWidthPerTile this) (Fin ?f))
        rowIndex (percentWidthPerTile this) (Fin ?f)"
    by (simp add: setStyle_def Let_def val)
  have width: "style (setColStyles dec this tile colIndex (percentWidthPerTile this) (Fin ?f))
      ''width'' =
      Some (''calc((('' @ numberToString dec (percentWidthPerTile this) @ ''% - (''
              @ stringOrUndefined (u_gutterSize this) @ '' * '' @ numberToString dec (Fin ?f)
              @ '')) * '' @ numberToString dec (colspan tile) @ '') + (''
              @ numberToString dec (jssub (colspan tile) (Fin 1)) @ '' * ''
              @ stringOrUndefined (u_gutterSize this) @ ''))'')"
    by (simp add: setColStyles_def Let_def tile_setStyle_def getBaseTileSize_def getTileSize_def
          calc_def)
  from val near edge total call width show ?thesis by blast
qed

text \<open>
  Three columns and one column, with a gutter of \<^verbatim>\<open>4px\<close>: for three the fraction is
  \<open>6004799503160661 / 2 ^ 53\<close>, written \<^verbatim>\<open>0.6666666666666666\<close> in the width of the tile;
  for one it is 0.
\<close>

theorem gutter_fraction_rounded_witness:
  "gutterWidthFractionPerTile threeColumns = Fin (6004799503160661 / 9007199254740992) \<and>
   \<bar>6004799503160661 / 9007199254740992 - 2 / 3\<bar> \<le> (1 / 2 ^ 54 :: rat) \<and>
   \<bar>sum_list (replicate 3 (6004799503160661 / 9007199254740992)) - 2\<bar> \<le> (3 / 2 ^ 54 :: rat) \<and>
   style (setColStyles jsDigits threeColumns unitTile (Fin 2) (percentWidthPerTile threeColumns)
            (Fin (6004799503160661 / 9007199254740992))) ''width'' =
     Some ''calc(((33.333333333333336% - (4px * 0.6666666666666666)) * 1) + (0 * 4px))'' \<and>
   gutterWidthFractionPerTile oneColumn = Fin 0"
proof -
  have three: "(1 :: nat) \<le> 3" "(3 :: nat) \<le> 9007199254740992"
    "u_cols threeColumns = Some (Fin (of_nat 3))"
    by (simp_all add: threeColumns_def TileStyler_init_def)
  have one: "(1 :: nat) \<le> 1" "(1 :: nat) \<le> 9007199254740992"
    "u_cols oneColumn = Some (Fin (of_nat 1))"
    by (simp_all add: oneColumn_def TileStyler_init_def)
  have f3: "of_int (roundHalfEven ((of_nat 3 - 1) / of_nat 3 * 2 ^ 53)) / 2 ^ 53
              = (6004799503160661 / 9007199254740992 :: rat)"
    by (simp add: roundHalfEven_def)
  have texts: "percentWidthPerTile threeColumns = Fin (4691249611844267 / 140737488355328)"
    "stringOrUndefined (u_gutterSize threeColumns) = ''4px''"
    "colspan unitTile = Fin 1"
    by (simp_all add: percentWidthPerTile_def toNumber_def threeColumns_def TileStyler_init_def
          toDouble_third_of_hundred stringOrUndefined_def normalizeUnits_4px unitTile_def)
  have zero: "jssub (Fin 1) (Fin 1) = Fin 0"
    by (simp add: toDouble_def)
  from gutter_fraction_rounded [OF three, of "FitTileStyler_setRowStyles jsDigits" jsDigits unitTile
         "Fin 1" "Fin 2"]
  obtain f where val: "gutterWidthFractionPerTile threeColumns = Fin f"
    and f: "f = of_int (roundHalfEven ((of_nat 3 - 1) / of_nat 3 * 2 ^ 53)) / 2 ^ 53"
    and near: "\<bar>f - (of_nat 3 - 1) / of_nat 3\<bar> \<le> 1 / 2 ^ 54"
    and total: "\<bar>sum_list (replicate 3 f) - (of_nat 3 - 1)\<bar> \<le> of_nat 3 / 2 ^ 54"
    and width: "style (setColStyles jsDigits threeColumns unitTile (Fin 2)
                   (percentWidthPerTile threeColumns) (Fin f)) ''width'' =
        Some (''calc((('' @ numberToString jsDigits (percentWidthPerTile threeColumns) @ ''% - (''
                @ stringOrUndefined (u_gutterSize threeColumns) @ '' * ''
                @ numberToString jsDigits (Fin f)
                @ '')) * '' @ numberToString jsDigits (colspan unitTile) @ '') + (''
                @ numberToString jsDigits (jssub (colspan unitTile) (Fin 1)) @ '' * ''
                @ stringOrUndefined (u_gutterSize threeColumns) @ ''))'')"
    by blast
  from f have f': "f = 6004799503160661 / 9007199254740992" by (simp only: f3)
  have a: "gutterWidthFractionPerTile threeColumns = Fin (6004799503160661 / 9007199254740992)"
    using val by (simp only: f')
  have b: "\<bar>6004799503160661 / 9007199254740992 - 2 / 3\<bar> \<le> (1 / 2 ^ 54 :: rat)"
    using near unfolding f' by simp
  have c: "\<bar>sum_list (replicate 3 (6004799503160661 / 9007199254740992)) - 2\<bar>
              \<le> (3 / 2 ^ 54 :: rat)"
    using total unfolding f' by simp
  have d: "style (setColStyles jsDigits threeColumns unitTile (Fin 2)
                     (percentWidthPerTile threeColumns)
                     (Fin (6004799503160661 / 9007199254740992))) ''width'' =
              Some ''calc(((33.333333333333336% - (4px * 0.6666666666666666)) * 1) + (0 * 4px))''"
    using width unfolding f' by (simp add: texts zero numberToString_doubles)
  from gutter_fraction_rounded [OF one, of "FitTileStyler_setRowStyles jsDigits" jsDigits unitTile
         "Fin 1" "Fin 0"]
  have e: "gutterWidthFractionPerTile oneColumn = Fin 0"
    by auto
  from a b c d e show ?thesis by blast
qed

subsection \<open>The scenario of the fixed row height\<close>

lemma scenario_init:
  "FixedTileStyler_init
     \<lparr>u_gutterSize = None, u_rows = Fin 0, u_rowspan = Fin 0, u_cols = None,
      u_direction = None, fixedRowHeight = ''100px''\<rparr> ''4px'' tracker (Fin 3) direction
   = Inr \<lparr>u_gutterSize = Some ''4px'', u_rows = rowCount tracker,
          u_rowspan = trackerRowspan tracker, u_cols = Some (Fin 3),
          u_direction = Some direction, fixedRowHeight = ''100px''\<rparr>"
  by (simp add: FixedTileStyler_init_def TileStyler_init_def Let_def normalizeUnits_4px
        normalizeUnits_100px allowed_100px)

text \<open>The two quotients of three columns, as the styler computes them.\<close>

lemma three_columns_quotients:
  assumes "u_cols this = Some (Fin 3)"
  shows "percentWidthPerTile this = Fin (4691249611844267 / 140737488355328)"
    and "gutterWidthFractionPerTile this = Fin (6004799503160661 / 9007199254740992)"
  using assms
  by (simp_all add: percentWidthPerTile_def gutterWidthFractionPerTile_def toNumber_def
        toDouble_third_of_hundred toDouble_two_thirds)

text \<open>The four properties that \<^verbatim>\<open>setStyle\<close> sets on the tile of the scenario.\<close>

lemma scenario_styles:
  assumes "this = \<lparr>u_gutterSize = Some ''4px'', u_rows = r, u_rowspan = rs,
          u_cols = Some (Fin 3), u_direction = Some direction, fixedRowHeight = ''100px''\<rparr>"
  shows "snd (setStyle (FixedTileStyler_setRowStyles jsDigits) jsDigits this
            \<lparr>colspan = Fin 1, rowspan = Fin 1, style = st\<rparr> (Fin 1) (Fin 2))
     = \<lparr>colspan = Fin 1, rowspan = Fin 1,
        style = st((if direction = ''rtl'' then ''right'' else ''left'') \<mapsto>
                      ''calc(((33.333333333333336% - (4px * 0.6666666666666666)) + 4px) * 2)'',
                   ''width'' \<mapsto>
                      ''calc(((33.333333333333336% - (4px * 0.6666666666666666)) * 1) + (0 * 4px))'',
                   ''top'' \<mapsto> ''calc((100px + 4px) * 1)'',
                   ''height'' \<mapsto> ''calc((100px * 1) + (0 * 4px))'')\<rparr>"
proof -
  have cols: "u_cols this = Some (Fin 3)" by (simp add: assms)
  have zero: "jssub (Fin 1) (Fin 1) = Fin 0" by (simp add: toDouble_def)
  show ?thesis
    unfolding setStyle_def three_columns_quotients [OF cols] unfolding assms
    by (simp add: setColStyles_def FixedTileStyler_setRowStyles_def Let_def
          getBaseTileSize_def getTilePosition_def getTileSize_def calc_def tile_setStyle_def
          stringOrUndefined_def numberToString_doubles zero)
qed

lemma numberToString_decimals:
  "numberToString exactDecimal (Fin (33333333333333336 / 10 ^ 15)) = ''33.333333333333336''"
  "numberToString exactDecimal (Fin (6666666666666666 / 10 ^ 16)) = ''0.6666666666666666''"
  by (simp_all add: numberToString_def isWholeNumber_def exactDecimal_def wholeAt_def
        digits.simps Let_def)

lemma render_leftExpr:
  "render exactDecimal leftExpr =
     ''calc(((33.333333333333336% - (4px * 0.6666666666666666)) + 4px) * 2)''"
  by (simp only: leftExpr_def render.simps numberToString_decimals numberToString_small) simp

lemma render_heightExpr: "render dec heightExpr = ''calc((100px * 1) + (0 * 4px))''"
  by (simp add: heightExpr_def)

lemma eval_leftExpr:
  "eval w env leftExpr
     = Some (Length ((w / 3 - 8 / 3 + 4) * 2 + 16 * (w + 10) / (3 * 10 ^ 17)))"
  by (simp add: leftExpr_def field_simps)

lemma eval_leftExprSpec: "eval w env leftExprSpec = Some (Length ((w / 3 - 8 / 3 + 4) * 2))"
  by (simp add: leftExprSpec_def)

lemma eval_heightExpr: "eval w env heightExpr = Some (Length 100)"
  by (simp add: heightExpr_def)



subsection \<open>The ratio styler\<close>

text \<open>
  C9: the constructor turns \<^verbatim>\<open>3:1\<close> into the ratio 3. After \<^verbatim>\<open>init\<close>, the row method
  called with a column width of 30 percent computes a row height of exactly 10 percent,
  and the base height it stores is written with that number, before any gutter is taken
  off.
\<close>

theorem RatioTileStyler_three_to_one:
  "\<exists>this. RatioTileStyler_new ''3:1'' = Inr this \<and> rowHeightRatio this = Some (Fin 3) \<and>
     RatioTileStyler_percentHeightPerTile
       (TileStyler_init this gutterSize tracker cols direction) (Fin 30) = Fin 10 \<and>
     baseTileHeight (fst (RatioTileStyler_setRowStyles dec
          (TileStyler_init this gutterSize tracker cols direction) tile rowIndex (Fin 30)
          gutterWidth))
       = Some (''(10% - ('' @ normalizeUnits gutterSize @ '' * ''
                 @ numberToString dec gutterWidth @ ''))'')"
  by (simp add: RatioTileStyler_new_def RatioTileStyler_parseRatio_def parseFloat_def
        parseUnsigned_def isWhiteSpace_def isDigit_def decimalValue_def digitValue_def
        scale10_def exponentPart_def RatioTileStyler_percentHeightPerTile_def TileStyler_init_def
        toNumber_def RatioTileStyler_setRowStyles_def Let_def getBaseTileSize_def
        stringOrUndefined_def)

text \<open>
  C10: after construction and \<^verbatim>\<open>init\<close>, and before any call of the row method,
  \<^verbatim>\<open>getComputedHeight\<close> of the ratio styler returns: the property is
  \<^verbatim>\<open>paddingBottom\<close>, and the value is written around the base height that has not been
  computed yet, which reads \<^verbatim>\<open>undefined\<close>.
\<close>

theorem RatioTileStyler_height_before_rows:
  "RatioTileStyler_new v = Inr this \<Longrightarrow>
   RatioTileStyler_getComputedHeight dec (TileStyler_init this gutterSize tracker cols direction) =
     Some (''paddingBottom'',
           ''calc('' @ numberToString dec (trackerRowspan tracker)
             @ '' * (undefined * 1) + (0 * '' @ normalizeUnits gutterSize @ '') + ''
             @ normalizeUnits gutterSize @ '' * (''
             @ numberToString dec (trackerRowspan tracker) @ '' - 1))'')"
  by (auto simp add: RatioTileStyler_new_def RatioTileStyler_parseRatio_def Let_def
        RatioTileStyler_getComputedHeight_def TileStyler_init_def getTileSpan_def
        getTileSize_def getGutterSpan_def calc_def stringOrUndefined_def split: if_splits)

text \<open>The ratio \<^verbatim>\<open>3:1\<close>, a gutter of \<^verbatim>\<open>4px\<close> and two rows.\<close>

theorem RatioTileStyler_height_before_rows_witness:
  "RatioTileStyler_new ''3:1'' =
     Inr \<lparr>u_gutterSize = None, u_rows = Fin 0, u_rowspan = Fin 0, u_cols = None,
          u_direction = None, rowHeightRatio = Some (Fin 3), baseTileHeight = None\<rparr> \<and>
   RatioTileStyler_getComputedHeight someDigits
     (TileStyler_init
        \<lparr>u_gutterSize = None, u_rows = Fin 0, u_rowspan = Fin 0, u_cols = None,
         u_direction = None, rowHeightRatio = Some (Fin 3), baseTileHeight = None\<rparr>
        ''4px'' twoRows (Fin 3) ''ltr'') =
     Some (''paddingBottom'', ''calc(2 * (undefined * 1) + (0 * 4px) + 4px * (2 - 1))'')"
proof -
  let ?styler = "\<lparr>u_gutterSize = None, u_rows = Fin 0, u_rowspan = Fin 0, u_cols = None,
         u_direction = None, rowHeightRatio = Some (Fin 3), baseTileHeight = None\<rparr>"
  have new: "RatioTileStyler_new ''3:1'' = Inr ?styler"
    by (simp add: RatioTileStyler_new_def RatioTileStyler_parseRatio_def parseFloat_def
          parseUnsigned_def isWhiteSpace_def isDigit_def decimalValue_def digitValue_def
          scale10_def exponentPart_def)
  from RatioTileStyler_height_before_rows [OF new, of someDigits "''4px''" twoRows "Fin 3" "''ltr''"]
  show ?thesis
    by (simp add: new normalizeUnits_4px twoRows_def)
qed

end
